theory Spec2Isabelle
  imports Complex_Main "HOL-Library.Multiset"
begin

section \<open>Data model\<close>

text \<open>
  The Bitcoin payment core of the donations platform. The database mutations and the price
  oracle are embedded from \<^verbatim>\<open>src/convex/bitcoin/exchange.ts\<close>, the public actions
  \<open>generateBitcoinAddress\<close> and \<open>checkBitcoinPayment\<close> from \<^verbatim>\<open>src/convex/crons.ts\<close>, the
  scheduled monitor from \<^verbatim>\<open>src/unnamed/part_013\<close>, the Bitcoin constants and the address check
  from \<^verbatim>\<open>src/unnamed/part_012\<close>, the shared validation from \<^verbatim>\<open>src/convex/types.ts\<close> and
  the schema from \<^verbatim>\<open>src/unnamed/part_011\<close>.

  Conventions of the embedding.
  \<^item> A JavaScript \<open>number\<close> that carries money or a BTC amount is a \<open>real\<close>; timestamps
    (\<open>Date.now()\<close>, milliseconds), confirmation counts and derivation indices are \<open>int\<close>.
    IEEE rounding, \<open>NaN\<close> and \<open>Infinity\<close> are not modelled.
  \<^item> A table is the list of its documents in creation order; an index query followed by
    \<open>.first()\<close> is \<open>find\<close> on that list, and \<open>ctx.db.patch\<close> of the document so found
    rewrites the first document that satisfies the query. The \<open>_id\<close> a mutation returns is
    the position of that document in the table.
  \<^item> Every thrown \<open>Error\<close> is a value of type \<open>error\<close>; a function that can throw returns
    \<open>error + 'a\<close>.
  \<^item> A Convex mutation or query is one transaction and is modelled as one function on the
    state. An action is the sequence of the transactions it runs; what it reads from outside
    (clock, explorer, price service) is an argument.
\<close>

datatype status = Initialized | Pending | Confirmed | Expired

datatype payment_method = Stripe | Paypal | Bitcoin

datatype network = Mainnet | Testnet

datatype error =
    AmountTooLow
  | AmountTooHigh
  | PlayerNameTooLong
  | PlayerNameBlank
  | MessageTooLong
  | MessageBlank
  | RateLimited
  | NoPricesAvailable
  | MedianIndexOutOfBounds
  | AddressNotFound
  | SessionNotOwner
  | SessionExpired
  | PendingPaymentNotFound
  | InvalidAddressPrefix
  | InvalidAddressLength
  | InvalidAddressCharacters
  | InvalidBech32Characters
  | Underpayment
  | DerivationFailure
  | GenerateFailed error
  | CheckFailed error

record payment_metadata =
  player_name :: "string option"
  use_player_name :: bool
  message :: "string option"

record donation =
  amount :: real
  display_name :: string
  payment_id :: string
  payment_method :: payment_method
  donation_message :: "string option"

record pending_payment =
  session_id :: string
  address :: string
  expected_amount_btc :: real
  expected_amount_usd :: real
  exchange_rate :: real
  derivation_index :: int
  metadata :: "payment_metadata option"
  status :: status
  txid :: "string option"
  detected_at :: "int option"
  scheduled_job_id :: "nat option"
  created_at :: int
  expires_at :: int

text \<open>The arguments of a scheduled \<open>monitorSinglePayment\<close> run, with its delay in ms.\<close>

record job =
  job_delay :: int
  job_address :: string
  job_expected_amount_btc :: real
  job_derivation_index :: int

text \<open>One token bucket of the rate limiter: the tokens left at time \<open>bucket_ts\<close>.\<close>

record bucket =
  bucket_tokens :: real
  bucket_ts :: int

text \<open>One fixed window of the rate limiter: its start and the requests admitted in it.\<close>

record window =
  window_start :: int
  window_used :: nat

text \<open>
  The state: the three tables (\<open>bitcoin_config\<close> holds the single row with key
  \<open>next_derivation_index\<close>, absent until first use; the schema also admits a string there,
  read through \<open>Number\<close>, but no writer stores one, so the row is the number it denotes),
  the scheduler's queue, the rate limiter's two named limits keyed by session, and the log
  of addresses sent to the blockchain explorers.
\<close>

record state =
  donations :: "donation list"
  bitcoin_config :: "int option"
  pending_bitcoin_payments :: "pending_payment list"
  scheduled :: "job list"
  generateAddress_limit :: "string \<rightharpoonup> bucket"
  checkPayment_limit :: "string \<rightharpoonup> window"
  explorer_queries :: "string list"

definition initial_state :: state where
  "initial_state =
     \<lparr>donations = [], bitcoin_config = None, pending_bitcoin_payments = [], scheduled = [],
      generateAddress_limit = Map.empty, checkPayment_limit = Map.empty,
      explorer_queries = []\<rparr>"

section \<open>Table access\<close>

text \<open>\<open>patch_first P f\<close> rewrites the first document that satisfies \<open>P\<close>.\<close>

fun patch_first :: "('a \<Rightarrow> bool) \<Rightarrow> ('a \<Rightarrow> 'a) \<Rightarrow> 'a list \<Rightarrow> 'a list" where
  "patch_first P f [] = []"
| "patch_first P f (x # xs) = (if P x then f x # xs else x # patch_first P f xs)"

text \<open>The position of the first document that satisfies \<open>P\<close>.\<close>

fun first_index :: "('a \<Rightarrow> bool) \<Rightarrow> 'a list \<Rightarrow> nat option" where
  "first_index P [] = None"
| "first_index P (x # xs) =
     (if P x then Some 0 else map_option Suc (first_index P xs))"

definition by_address :: "string \<Rightarrow> pending_payment \<Rightarrow> bool" where
  "by_address a p = (address p = a)"

definition by_session_amount :: "string \<Rightarrow> real \<Rightarrow> pending_payment \<Rightarrow> bool" where
  "by_session_amount sid amt p = (session_id p = sid \<and> expected_amount_usd p = amt)"

definition by_payment_id :: "string \<Rightarrow> donation \<Rightarrow> bool" where
  "by_payment_id a d = (payment_id d = a)"

section \<open>Database mutations\<close>

definition getNextDerivationIndex :: "state \<Rightarrow> int \<times> state" where
  "getNextDerivationIndex s =
     (case bitcoin_config s of
        None \<Rightarrow> (0, s\<lparr>bitcoin_config := Some 1\<rparr>)
      | Some currentIndex \<Rightarrow> (currentIndex, s\<lparr>bitcoin_config := Some (currentIndex + 1)\<rparr>))"

definition checkExistingPaymentSession ::
  "state \<Rightarrow> string \<Rightarrow> real \<Rightarrow> int \<Rightarrow> (string \<times> int) option" where
  "checkExistingPaymentSession s sid amt now =
     (case find (by_session_amount sid amt) (pending_bitcoin_payments s) of
        None \<Rightarrow> None
      | Some existing \<Rightarrow>
          if expires_at existing > now
          then Some (address existing, derivation_index existing)
          else None)"

definition validateSessionOwnsAddress ::
  "state \<Rightarrow> string \<Rightarrow> string \<Rightarrow> int \<Rightarrow> error + bool" where
  "validateSessionOwnsAddress s sid a now =
     (case find (by_address a) (pending_bitcoin_payments s) of
        None \<Rightarrow> Inl AddressNotFound
      | Some payment \<Rightarrow>
          if session_id payment \<noteq> sid then Inl SessionNotOwner
          else if status payment = Initialized \<and> expires_at payment \<le> now
          then Inl SessionExpired
          else Inr True)"

definition createPendingBitcoinPayment ::
  "state \<Rightarrow> string \<Rightarrow> string \<Rightarrow> real \<Rightarrow> real \<Rightarrow> real \<Rightarrow> int \<Rightarrow>
   payment_metadata option \<Rightarrow> int \<Rightarrow> state" where
  "createPendingBitcoinPayment s sid a btc usd rate idx md now =
     s\<lparr>pending_bitcoin_payments := pending_bitcoin_payments s @
         [\<lparr>session_id = sid, address = a, expected_amount_btc = btc,
           expected_amount_usd = usd, exchange_rate = rate, derivation_index = idx,
           metadata = md, status = Initialized, txid = None, detected_at = None,
           scheduled_job_id = None, created_at = now, expires_at = now + 86400000\<rparr>]\<rparr>"

definition updatePendingPaymentJobId ::
  "state \<Rightarrow> string \<Rightarrow> nat \<Rightarrow> error + (nat \<times> state)" where
  "updatePendingPaymentJobId s a jobId =
     (case first_index (by_address a) (pending_bitcoin_payments s) of
        None \<Rightarrow> Inl PendingPaymentNotFound
      | Some i \<Rightarrow>
          Inr (i, s\<lparr>pending_bitcoin_payments :=
                      patch_first (by_address a) (\<lambda>p. p\<lparr>scheduled_job_id := Some jobId\<rparr>)
                        (pending_bitcoin_payments s)\<rparr>))"

definition updatePendingPaymentWithTx ::
  "state \<Rightarrow> string \<Rightarrow> string \<Rightarrow> int \<Rightarrow> nat option \<times> state" where
  "updatePendingPaymentWithTx s a tx now =
     (case find (by_address a) (pending_bitcoin_payments s) of
        None \<Rightarrow> (None, s)
      | Some payment \<Rightarrow>
          if status payment \<noteq> Initialized \<and> status payment \<noteq> Pending then (None, s)
          else
            let newStatus = (if status payment = Initialized then Pending else status payment)
            in (first_index (by_address a) (pending_bitcoin_payments s),
                s\<lparr>pending_bitcoin_payments :=
                    patch_first (by_address a)
                      (\<lambda>p. p\<lparr>txid := Some tx, detected_at := Some now, status := newStatus\<rparr>)
                      (pending_bitcoin_payments s)\<rparr>))"

definition getPendingPayments :: "state \<Rightarrow> pending_payment list" where
  "getPendingPayments s =
     filter (\<lambda>p. status p = Initialized) (pending_bitcoin_payments s) @
     filter (\<lambda>p. status p = Pending) (pending_bitcoin_payments s)"

definition updatePendingPaymentStatus ::
  "state \<Rightarrow> string \<Rightarrow> status \<Rightarrow> nat option \<times> state" where
  "updatePendingPaymentStatus s a st =
     (case first_index (by_address a) (pending_bitcoin_payments s) of
        None \<Rightarrow> (None, s)
      | Some i \<Rightarrow>
          (Some i, s\<lparr>pending_bitcoin_payments :=
                       patch_first (by_address a) (\<lambda>p. p\<lparr>status := st\<rparr>)
                         (pending_bitcoin_payments s)\<rparr>))"

definition markPaymentExpired ::
  "state \<Rightarrow> string \<Rightarrow> string \<Rightarrow> error + (nat option \<times> state)" where
  "markPaymentExpired s a sid =
     (case find (by_address a) (pending_bitcoin_payments s) of
        None \<Rightarrow> Inr (None, s)
      | Some payment \<Rightarrow>
          if session_id payment \<noteq> sid then Inl SessionNotOwner
          else if status payment = Initialized
          then Inr (first_index (by_address a) (pending_bitcoin_payments s),
                    s\<lparr>pending_bitcoin_payments :=
                        patch_first (by_address a) (\<lambda>p. p\<lparr>status := Expired\<rparr>)
                          (pending_bitcoin_payments s)\<rparr>)
          else Inr (None, s))"

definition getPendingPaymentByAddressInternal :: "state \<Rightarrow> string \<Rightarrow> pending_payment option" where
  "getPendingPaymentByAddressInternal s a = find (by_address a) (pending_bitcoin_payments s)"

definition createDonationFromPayment ::
  "state \<Rightarrow> string \<Rightarrow> real \<Rightarrow> string \<Rightarrow> string option \<Rightarrow> bool \<times> state" where
  "createDonationFromPayment s a amount_usd name msg =
     (case find (by_payment_id a) (donations s) of
        Some existingDonation \<Rightarrow> (False, s)
      | None \<Rightarrow>
          (True, s\<lparr>donations := donations s @
                     [\<lparr>amount = amount_usd, display_name = name, payment_id = a,
                       payment_method = Bitcoin, donation_message = msg\<rparr>]\<rparr>))"

text \<open>
  \<open>cleanupExpiredPendingPayments\<close>: four query-then-write passes in the source's order, each
  query reading the table as the previous pass left it.
\<close>

record cleanup_counts =
  markedExpiredInitialized :: nat
  markedExpiredPending :: nat
  deletedConfirmed :: nat
  deletedOldExpired :: nat

definition mark_expired_where :: "status \<Rightarrow> int \<Rightarrow> pending_payment list \<Rightarrow> pending_payment list" where
  "mark_expired_where st now ps =
     map (\<lambda>p. if status p = st \<and> expires_at p < now then p\<lparr>status := Expired\<rparr> else p) ps"

definition cleanupExpiredPendingPayments :: "state \<Rightarrow> int \<Rightarrow> cleanup_counts \<times> state" where
  "cleanupExpiredPendingPayments s now =
     (let sevenDaysAgo = now - 7 * 24 * 60 * 60 * 1000;
          t0 = pending_bitcoin_payments s;
          expiredInitialized = filter (\<lambda>p. status p = Initialized \<and> expires_at p < now) t0;
          t1 = mark_expired_where Initialized now t0;
          expiredPending = filter (\<lambda>p. status p = Pending \<and> expires_at p < now) t1;
          t2 = mark_expired_where Pending now t1;
          confirmed = filter (\<lambda>p. status p = Confirmed) t2;
          t3 = filter (\<lambda>p. status p \<noteq> Confirmed) t2;
          oldExpired = filter (\<lambda>p. status p = Expired \<and> expires_at p < sevenDaysAgo) t3;
          t4 = filter (\<lambda>p. \<not> (status p = Expired \<and> expires_at p < sevenDaysAgo)) t3
      in (\<lparr>markedExpiredInitialized = length expiredInitialized,
           markedExpiredPending = length expiredPending,
           deletedConfirmed = length confirmed,
           deletedOldExpired = length oldExpired\<rparr>,
          s\<lparr>pending_bitcoin_payments := t4\<rparr>))"

section \<open>Shared validation and constants\<close>

definition minDonationAmount :: real where "minDonationAmount = 1"
definition maxDonationAmount :: real where "maxDonationAmount = 100000"
definition maxPlayerNameLength :: nat where "maxPlayerNameLength = 50"
definition maxMessageLength :: nat where "maxMessageLength = 500"

definition btcAmountTolerance :: real where "btcAmountTolerance = 1 / 100000"

fun bitcoinConfirmations :: "network \<Rightarrow> int" where
  "bitcoinConfirmations Mainnet = 3"
| "bitcoinConfirmations Testnet = 6"

text \<open>
  \<open>String.prototype.trim\<close> on the ASCII white space characters (space, tab, line feed,
  vertical tab, form feed, carriage return); the non-ASCII white space of JavaScript is
  outside \<open>string\<close>.
\<close>

definition is_space :: "char \<Rightarrow> bool" where
  "is_space c = (c \<in> set [CHR '' '', CHR 0x09, CHR 0x0A, CHR 0x0B, CHR 0x0C, CHR 0x0D])"

definition trim :: "string \<Rightarrow> string" where
  "trim str = rev (dropWhile is_space (rev (dropWhile is_space str)))"

text \<open>JavaScript truthiness of an optional string: present and not empty.\<close>

fun truthy_string :: "string option \<Rightarrow> bool" where
  "truthy_string None = False"
| "truthy_string (Some str) = (str \<noteq> [])"

definition getDisplayName :: "payment_metadata option \<Rightarrow> string \<Rightarrow> string" where
  "getDisplayName md fallback =
     (case md of
        None \<Rightarrow> fallback
      | Some m \<Rightarrow>
          if use_player_name m \<and> truthy_string (player_name m)
          then the (player_name m) else fallback)"

definition validateDonationAmount :: "real \<Rightarrow> error + unit" where
  "validateDonationAmount amt =
     (if amt < minDonationAmount then Inl AmountTooLow
      else if amt > maxDonationAmount then Inl AmountTooHigh
      else Inr ())"

definition validatePlayerName :: "string option \<Rightarrow> error + unit" where
  "validatePlayerName playerName =
     (if \<not> truthy_string playerName then Inr ()
      else if length (the playerName) > maxPlayerNameLength then Inl PlayerNameTooLong
      else if length (trim (the playerName)) = 0 then Inl PlayerNameBlank
      else Inr ())"

definition validateMessage :: "string option \<Rightarrow> error + unit" where
  "validateMessage msg =
     (if \<not> truthy_string msg then Inr ()
      else if length (the msg) > maxMessageLength then Inl MessageTooLong
      else if length (trim (the msg)) = 0 then Inl MessageBlank
      else Inr ())"

text \<open>
  \<open>validateBitcoinAddress\<close>: the prefix of the configured network, a length in 42..90, a
  body that matches \<open>/^[a-z0-9]+$/\<close> and does not match \<open>/[1bio]/\<close>.
\<close>

definition bech32Charset :: "string \<Rightarrow> bool" where
  "bech32Charset body =
     (body \<noteq> [] \<and> list_all (\<lambda>c. c \<in> set ''abcdefghijklmnopqrstuvwxyz0123456789'') body)"

definition invalidBech32Chars :: "string \<Rightarrow> bool" where
  "invalidBech32Chars body = list_ex (\<lambda>c. c \<in> set ''1bio'') body"

definition validateBitcoinAddress :: "string \<Rightarrow> network \<Rightarrow> error + unit" where
  "validateBitcoinAddress a net =
     (let prefix = (if net = Mainnet then ''bc1'' else ''tb1'') in
      if take (length prefix) a \<noteq> prefix then Inl InvalidAddressPrefix
      else if length a < 42 \<or> length a > 90 then Inl InvalidAddressLength
      else
        let addressBody = drop 3 a in
        if \<not> bech32Charset addressBody then Inl InvalidAddressCharacters
        else if invalidBech32Chars addressBody then Inl InvalidBech32Characters
        else Inr ())"

section \<open>Exchange rate oracle\<close>







section \<open>Rate limiter, scheduler, explorer\<close>

text \<open>
  Modelled from the spec: the rate limiter is the library component
  \<^verbatim>\<open>@convex-dev/rate-limiter\<close>, of which the source holds only the configuration and the
  calls. \<open>generateAddress\<close> is a token bucket of rate 1 token per 300 s and capacity 1,
  \<open>checkPayment\<close> a fixed window of 1 request per 10 s, both keyed by the session; a call
  that exceeds the limit fails with \<open>RateLimited\<close> and consumes nothing.
\<close>

definition limit_generateAddress :: "state \<Rightarrow> string \<Rightarrow> int \<Rightarrow> bool \<times> state" where
  "limit_generateAddress s key now =
     (let tokens =
            (case generateAddress_limit s key of
               None \<Rightarrow> 1
             | Some b \<Rightarrow> min 1 (bucket_tokens b + real_of_int (now - bucket_ts b) / 300000))
      in if tokens \<ge> 1
         then (True, s\<lparr>generateAddress_limit :=
                         (generateAddress_limit s)
                           (key \<mapsto> \<lparr>bucket_tokens = tokens - 1, bucket_ts = now\<rparr>)\<rparr>)
         else (False, s))"

definition limit_checkPayment :: "state \<Rightarrow> string \<Rightarrow> int \<Rightarrow> bool \<times> state" where
  "limit_checkPayment s key now =
     (let w =
            (case checkPayment_limit s key of
               None \<Rightarrow> \<lparr>window_start = now, window_used = 0\<rparr>
             | Some w0 \<Rightarrow>
                 if now \<ge> window_start w0 + 10000
                 then \<lparr>window_start =
                         window_start w0 + ((now - window_start w0) div 10000) * 10000,
                       window_used = 0\<rparr>
                 else w0)
      in if window_used w < 1
         then (True, s\<lparr>checkPayment_limit :=
                         (checkPayment_limit s)(key \<mapsto> w\<lparr>window_used := window_used w + 1\<rparr>)\<rparr>)
         else (False, s))"

text \<open>
  \<open>ctx.scheduler.runAfter(delay, monitorSinglePayment, args)\<close>: the job joins the queue and its
  position is the job id.
\<close>

definition runAfter :: "state \<Rightarrow> int \<Rightarrow> string \<Rightarrow> real \<Rightarrow> int \<Rightarrow> nat \<times> state" where
  "runAfter s delay a expected idx =
     (length (scheduled s),
      s\<lparr>scheduled := scheduled s @
          [\<lparr>job_delay = delay, job_address = a, job_expected_amount_btc = expected,
            job_derivation_index = idx\<rparr>]\<rparr>)"

text \<open>
  \<open>BlockchainPaymentResult\<close>: what \<open>checkBlockchainPayment\<close> returns; the payload is the
  transaction hash, the BTC amount credited to the address and the confirmations. The
  explorers' answer is an argument \<open>probe\<close> of the actions, and each call is logged.
\<close>

datatype probe_result =
    ApiFailed
  | NoPayment
  | PendingTx string real int
  | Paid string real int

definition checkBlockchainPayment ::
  "(string \<Rightarrow> probe_result) \<Rightarrow> state \<Rightarrow> string \<Rightarrow> probe_result \<times> state" where
  "checkBlockchainPayment probe s a = (probe a, s\<lparr>explorer_queries := explorer_queries s @ [a]\<rparr>)"

section \<open>The monitor\<close>

text \<open>
  One run of \<open>monitorSinglePayment\<close>. \<open>now\<close> is the clock the action reads, \<open>now_tx\<close> the
  clock \<open>updatePendingPaymentWithTx\<close> reads if it runs.
\<close>

definition reschedule :: "state \<Rightarrow> string \<Rightarrow> real \<Rightarrow> int \<Rightarrow> state" where
  "reschedule s a expected idx = snd (runAfter s 10000 a expected idx)"

definition attach_if_new ::
  "state \<Rightarrow> pending_payment \<Rightarrow> string \<Rightarrow> string \<Rightarrow> int \<Rightarrow> state" where
  "attach_if_new s pendingPayment a tx now_tx =
     (if txid pendingPayment \<noteq> Some tx then snd (updatePendingPaymentWithTx s a tx now_tx) else s)"

definition monitorSinglePayment ::
  "network \<Rightarrow> (string \<Rightarrow> probe_result) \<Rightarrow> int \<Rightarrow> int \<Rightarrow> state \<Rightarrow>
   string \<Rightarrow> real \<Rightarrow> int \<Rightarrow> state" where
  "monitorSinglePayment net probe now now_tx s a expected idx =
     (case getPendingPaymentByAddressInternal s a of
        None \<Rightarrow> s
      | Some pendingPayment \<Rightarrow>
          if status pendingPayment = Confirmed then s
          else if status pendingPayment = Expired then s
          else if now > expires_at pendingPayment
          then snd (updatePendingPaymentStatus s a Expired)
          else
            (case checkBlockchainPayment probe s a of
               (ApiFailed, s1) \<Rightarrow> reschedule s1 a expected idx
             | (NoPayment, s1) \<Rightarrow> reschedule s1 a expected idx
             | (PendingTx tx amt conf, s1) \<Rightarrow>
                 reschedule (attach_if_new s1 pendingPayment a tx now_tx) a expected idx
             | (Paid tx amt conf, s1) \<Rightarrow>
                 if conf < bitcoinConfirmations net
                 then reschedule (attach_if_new s1 pendingPayment a tx now_tx) a expected idx
                 else if abs (amt - expected) > btcAmountTolerance \<and> amt < expected
                 then snd (updatePendingPaymentStatus s1 a Expired)
                 else
                   (let amount_usd = amt * exchange_rate pendingPayment;
                        name = getDisplayName (metadata pendingPayment) ''Anonymous'';
                        (created, s2) =
                          createDonationFromPayment s1 a amount_usd name
                            (Option.bind (metadata pendingPayment) message)
                    in snd (updatePendingPaymentStatus s2 a Confirmed))))"

section \<open>Public actions\<close>

record generate_result =
  result_address :: string
  result_amount_btc :: real
  result_amount_usd :: real
  result_exchange_rate :: real
  result_derivation_index :: int

text \<open>
  \<open>generateBitcoinAddress\<close>. \<open>derive\<close> is \<open>deriveBip84Address\<close> at the configured key and
  network (imported from \<^verbatim>\<open>libs/bitcoin/bip84\<close>, a parameter here), \<open>price\<close> what
  \<open>getBtcPrice\<close>
  returns or throws, \<open>now_limit\<close>, \<open>now_query\<close> and \<open>now_create\<close> the clock readings of the
  rate limiter, of \<open>checkExistingPaymentSession\<close> and of \<open>createPendingBitcoinPayment\<close>.
  The validation and the rate limit run before the \<open>try\<close>; what throws inside it is
  rethrown wrapped. Division by a price of 0 gives \<open>Infinity\<close> in the source and 0 here; the
  properties below do not depend on the quotient.
\<close>

definition generateBitcoinAddress ::
  "(int \<Rightarrow> error + string) \<Rightarrow> (error + real) \<Rightarrow> int \<Rightarrow> int \<Rightarrow> int \<Rightarrow> state \<Rightarrow>
   real \<Rightarrow> string \<Rightarrow> payment_metadata option \<Rightarrow> (error + generate_result) \<times> state" where
  "generateBitcoinAddress derive price now_limit now_query now_create s amt sid md =
     (case validateDonationAmount amt of
        Inl e \<Rightarrow> (Inl e, s)
      | Inr _ \<Rightarrow>
     (case (if truthy_string (Option.bind md player_name)
            then validatePlayerName (Option.bind md player_name) else Inr ()) of
        Inl e \<Rightarrow> (Inl e, s)
      | Inr _ \<Rightarrow>
     (case (if truthy_string (Option.bind md message)
            then validateMessage (Option.bind md message) else Inr ()) of
        Inl e \<Rightarrow> (Inl e, s)
      | Inr _ \<Rightarrow>
     (case limit_generateAddress s sid now_limit of
        (False, s1) \<Rightarrow> (Inl RateLimited, s1)
      | (True, s1) \<Rightarrow>
     (case price of
        Inl e \<Rightarrow> (Inl (GenerateFailed e), s1)
      | Inr btcPrice \<Rightarrow>
          let amount_btc = amt / btcPrice in
          (case checkExistingPaymentSession s1 sid amt now_query of
             Some (existing_address, existing_index) \<Rightarrow>
               (Inr \<lparr>result_address = existing_address, result_amount_btc = amount_btc,
                     result_amount_usd = amt, result_exchange_rate = btcPrice,
                     result_derivation_index = existing_index\<rparr>, s1)
           | None \<Rightarrow>
               (case getNextDerivationIndex s1 of
                  (idx, s2) \<Rightarrow>
               (case derive idx of
                  Inl e \<Rightarrow> (Inl (GenerateFailed e), s2)
                | Inr a \<Rightarrow>
                    let s3 = createPendingBitcoinPayment s2 sid a amount_btc amt btcPrice idx md
                               now_create
                    in (case runAfter s3 10000 a amount_btc idx of
                          (jobId, s4) \<Rightarrow>
                        (case updatePendingPaymentJobId s4 a jobId of
                           Inl e \<Rightarrow> (Inl (GenerateFailed e), s4)
                         | Inr (_, s5) \<Rightarrow>
                             (Inr \<lparr>result_address = a, result_amount_btc = amount_btc,
                                   result_amount_usd = amt, result_exchange_rate = btcPrice,
                                   result_derivation_index = idx\<rparr>, s5)))))))))))"

text \<open>\<open>CheckBitcoinPaymentResult\<close>: not paid, or the transaction seen.\<close>

datatype check_result =
    NotPaid
  | PaidInfo string real int int

text \<open>
  \<open>checkBitcoinPayment\<close>. \<open>now\<close> is the clock of \<open>validateSessionOwnsAddress\<close>,
  \<open>now_limit\<close> that of the rate limiter; \<open>expected_btc_amount\<close> is optional and tested for
  truthiness (present and not 0). The whole body is inside the \<open>try\<close>.
\<close>

definition checkBitcoinPayment ::
  "network \<Rightarrow> (string \<Rightarrow> probe_result) \<Rightarrow> (error + real) \<Rightarrow> int \<Rightarrow> int \<Rightarrow> state \<Rightarrow>
   string \<Rightarrow> string \<Rightarrow> real option \<Rightarrow> payment_metadata option \<Rightarrow>
   (error + check_result) \<times> state" where
  "checkBitcoinPayment net probe price now now_limit s a sid expected_btc_amount md =
     (case validateBitcoinAddress a net of
        Inl e \<Rightarrow> (Inl (CheckFailed e), s)
      | Inr _ \<Rightarrow>
     (case validateSessionOwnsAddress s sid a now of
        Inl e \<Rightarrow> (Inl (CheckFailed e), s)
      | Inr _ \<Rightarrow>
     (case limit_checkPayment s sid now_limit of
        (False, s1) \<Rightarrow> (Inl (CheckFailed RateLimited), s1)
      | (True, s1) \<Rightarrow>
     (case checkBlockchainPayment probe s1 a of
        (ApiFailed, s2) \<Rightarrow> (Inr NotPaid, s2)
      | (NoPayment, s2) \<Rightarrow> (Inr NotPaid, s2)
      | (PendingTx tx amt conf, s2) \<Rightarrow> (Inr (PaidInfo tx amt conf (bitcoinConfirmations net)), s2)
      | (Paid tx amt conf, s2) \<Rightarrow>
          if \<not> (conf \<ge> bitcoinConfirmations net)
          then (Inr (PaidInfo tx amt conf (bitcoinConfirmations net)), s2)
          else if (case expected_btc_amount of
                     None \<Rightarrow> False
                   | Some expected \<Rightarrow>
                       expected \<noteq> 0 \<and> abs (amt - expected) > btcAmountTolerance
                       \<and> amt < expected)
          then (Inl (CheckFailed Underpayment), s2)
          else
            (case price of
               Inl e \<Rightarrow> (Inl (CheckFailed e), s2)
             | Inr btcPrice \<Rightarrow>
                 let amount_usd = amt * btcPrice in
                 (case validateDonationAmount amount_usd of
                    Inl e \<Rightarrow> (Inl (CheckFailed e), s2)
                  | Inr _ \<Rightarrow>
                      let name = getDisplayName md ''Anonymous'';
                          (created, s3) =
                            createDonationFromPayment s2 a amount_usd name (Option.bind md message);
                          s4 = snd (updatePendingPaymentStatus s3 a Confirmed)
                      in (Inr (PaidInfo tx amt conf (bitcoinConfirmations net)), s4)))))))"

section \<open>Interleavings\<close>

text \<open>
  Actions are not transactions: between two mutations of one action, mutations of other
  actions may commit. A history of the database is therefore a sequence of single
  transactions, each with arbitrary arguments; every interleaving of the actions above is
  one of these sequences.
\<close>

datatype transaction =
    GetNextDerivationIndex
  | CreatePendingBitcoinPayment string string real real real int "payment_metadata option" int
  | UpdatePendingPaymentJobId string nat
  | UpdatePendingPaymentWithTx string string int
  | UpdatePendingPaymentStatus string status
  | MarkPaymentExpired string string
  | CreateDonationFromPayment string real string "string option"
  | CleanupExpiredPendingPayments int
  | RunAfter int string real int
  | LimitGenerateAddress string int
  | LimitCheckPayment string int

fun commit :: "transaction \<Rightarrow> state \<Rightarrow> state" where
  "commit GetNextDerivationIndex s = snd (getNextDerivationIndex s)"
| "commit (CreatePendingBitcoinPayment sid a btc usd rate idx md now) s =
     createPendingBitcoinPayment s sid a btc usd rate idx md now"
| "commit (UpdatePendingPaymentJobId a jobId) s =
     (case updatePendingPaymentJobId s a jobId of Inl e \<Rightarrow> s | Inr (_, s') \<Rightarrow> s')"
| "commit (UpdatePendingPaymentWithTx a tx now) s = snd (updatePendingPaymentWithTx s a tx now)"
| "commit (UpdatePendingPaymentStatus a st) s = snd (updatePendingPaymentStatus s a st)"
| "commit (MarkPaymentExpired a sid) s =
     (case markPaymentExpired s a sid of Inl e \<Rightarrow> s | Inr (_, s') \<Rightarrow> s')"
| "commit (CreateDonationFromPayment a usd name msg) s =
     snd (createDonationFromPayment s a usd name msg)"
| "commit (CleanupExpiredPendingPayments now) s = snd (cleanupExpiredPendingPayments s now)"
| "commit (RunAfter delay a expected idx) s = snd (runAfter s delay a expected idx)"
| "commit (LimitGenerateAddress key now) s = snd (limit_generateAddress s key now)"
| "commit (LimitCheckPayment key now) s = snd (limit_checkPayment s key now)"

fun run :: "transaction list \<Rightarrow> state \<Rightarrow> state" where
  "run [] s = s"
| "run (t # ts) s = run ts (commit t s)"

text \<open>The derivation indices handed out along a history, in order.\<close>

fun indices_returned :: "transaction list \<Rightarrow> state \<Rightarrow> int list" where
  "indices_returned [] s = []"
| "indices_returned (GetNextDerivationIndex # ts) s =
     fst (getNextDerivationIndex s) # indices_returned ts (commit GetNextDerivationIndex s)"
| "indices_returned (t # ts) s = indices_returned ts (commit t s)"

definition donations_for :: "string \<Rightarrow> state \<Rightarrow> donation list" where
  "donations_for a s = filter (by_payment_id a) (donations s)"

fun creates_donation_for :: "string \<Rightarrow> transaction \<Rightarrow> bool" where
  "creates_donation_for a (CreateDonationFromPayment a' usd name msg) = (a' = a)"
| "creates_donation_for a t = False"

text \<open>
  A history may also contain whole runs of the actions, each with what it read from outside.
\<close>

datatype event =
    Transaction transaction
  | MonitorRun network "string \<Rightarrow> probe_result" int int string real int
  | CheckRun network "string \<Rightarrow> probe_result" "error + real" int int string string
      "real option" "payment_metadata option"
  | GenerateRun "int \<Rightarrow> error + string" "error + real" int int int real string
      "payment_metadata option"

fun occur :: "event \<Rightarrow> state \<Rightarrow> state" where
  "occur (Transaction t) s = commit t s"
| "occur (MonitorRun net probe now now_tx a expected idx) s =
     monitorSinglePayment net probe now now_tx s a expected idx"
| "occur (CheckRun net probe price now now_limit a sid expected md) s =
     snd (checkBitcoinPayment net probe price now now_limit s a sid expected md)"
| "occur (GenerateRun derive price now_limit now_query now_create amt sid md) s =
     snd (generateBitcoinAddress derive price now_limit now_query now_create s amt sid md)"

fun history :: "event list \<Rightarrow> state \<Rightarrow> state" where
  "history [] s = s"
| "history (e # es) s = history es (occur e s)"

section \<open>Notions used in the statements\<close>

text \<open>The index the next call of \<open>getNextDerivationIndex\<close> hands out.\<close>

definition next_index :: "state \<Rightarrow> int" where
  "next_index s = (case bitcoin_config s of None \<Rightarrow> 0 | Some n \<Rightarrow> n)"


text \<open>
  The metadata checks \<open>generateBitcoinAddress\<close> runs before anything else: a player name
  and a message, each only if present and not empty.
\<close>

definition metadata_valid :: "payment_metadata option \<Rightarrow> bool" where
  "metadata_valid md =
     ((truthy_string (Option.bind md player_name) \<longrightarrow>
         validatePlayerName (Option.bind md player_name) = Inr ())
      \<and> (truthy_string (Option.bind md message) \<longrightarrow>
         validateMessage (Option.bind md message) = Inr ()))"






section \<open>Example data\<close>

text \<open>
  One session \<open>s1\<close> that asks for 100 USD at a price of 100000 USD per BTC, so that 0.001 BTC
  is expected at the address; time 0 is the moment of the first call.
\<close>

definition example_address :: string where
  "example_address = ''bc1qar0srrr7xfkvy5l643lydnw9re59gtzzwf5mdq''"

definition example_row :: pending_payment where
  "example_row =
     \<lparr>session_id = ''s1'', address = example_address, expected_amount_btc = 1 / 1000,
      expected_amount_usd = 100, exchange_rate = 100000, derivation_index = 0,
      metadata = None, status = Pending, txid = Some ''abc'', detected_at = Some 100,
      scheduled_job_id = None, created_at = 0, expires_at = 86400000\<rparr>"

definition example_state :: state where
  "example_state = initial_state\<lparr>pending_bitcoin_payments := [example_row]\<rparr>"



definition example_derive :: "int \<Rightarrow> error + string" where
  "example_derive i = Inr example_address"



definition example_generated :: "(error + generate_result) \<times> state" where
  "example_generated =
     generateBitcoinAddress example_derive (Inr 100000) 0 0 0 initial_state 100 ''s1'' None"

definition example_donation_args :: transaction where
  "example_donation_args = CreateDonationFromPayment example_address 100 ''Anonymous'' None"

section \<open>Properties\<close>

lemma find_first_index_None:
  "find P xs = None \<longleftrightarrow> first_index P xs = None"
  by (induction xs) auto

subsection \<open>Tables\<close>

lemma first_index_SomeD:
  "first_index P xs = Some i \<Longrightarrow> i < length xs \<and> P (xs ! i) \<and> find P xs = Some (xs ! i)"
  by (induction xs arbitrary: i) (auto split: if_splits)

lemma find_Some_first_index:
  "find P xs = Some x \<Longrightarrow> \<exists>i. first_index P xs = Some i \<and> xs ! i = x"
  by (induction xs) (auto split: if_splits)

lemma patch_first_update:
  "first_index P xs = Some i \<Longrightarrow> patch_first P f xs = xs[i := f (xs ! i)]"
  by (induction xs arbitrary: i) (auto split: if_splits)


lemma status_update_same: "status (r::pending_payment) = st \<Longrightarrow> r\<lparr>status := st\<rparr> = r"
  by auto

subsection \<open>Attaching a transaction\<close>

lemma attach_live:
  assumes "first_index (by_address a) (pending_bitcoin_payments s) = Some i"
    and "status (pending_bitcoin_payments s ! i) = Initialized
         \<or> status (pending_bitcoin_payments s ! i) = Pending"
  shows "updatePendingPaymentWithTx s a tx now =
      (Some i, s\<lparr>pending_bitcoin_payments := (pending_bitcoin_payments s)
          [i := (pending_bitcoin_payments s ! i)
                  \<lparr>txid := Some tx, detected_at := Some now, status := Pending\<rparr>]\<rparr>)"
  using assms first_index_SomeD[OF assms(1)]
  by (auto simp: updatePendingPaymentWithTx_def patch_first_update Let_def status_update_same)

lemma attach_terminal:
  assumes "first_index (by_address a) (pending_bitcoin_payments s) = Some i"
    and "status (pending_bitcoin_payments s ! i) = Confirmed
         \<or> status (pending_bitcoin_payments s ! i) = Expired"
  shows "updatePendingPaymentWithTx s a tx now = (None, s)"
  using assms first_index_SomeD[OF assms(1)]
  by (auto simp: updatePendingPaymentWithTx_def)

lemma attach_missing:
  assumes "first_index (by_address a) (pending_bitcoin_payments s) = None"
  shows "updatePendingPaymentWithTx s a tx now = (None, s)"
  using assms find_first_index_None[of "by_address a" "pending_bitcoin_payments s"]
  by (simp add: updatePendingPaymentWithTx_def)

lemma attach_same_txid_row:
  "status (p::pending_payment) = Pending \<Longrightarrow> txid p = Some tx \<Longrightarrow>
   p\<lparr>txid := Some tx, detected_at := Some now, status := Pending\<rparr> = p\<lparr>detected_at := Some now\<rparr>"
  by auto

text \<open>
  C8, as amended. Let the row found for the address (the first one in the table) be the
  \<open>i\<close>-th, \<open>p\<close>. If its status is \<open>initialized\<close> or \<open>pending\<close>, \<open>updatePendingPaymentWithTx\<close>
  returns its id and rewrites exactly that row, setting \<open>txid\<close>, \<open>detected_at\<close> (to the
  current time) and the status \<open>pending\<close>, and nothing else in the state. If the row is
  already \<open>pending\<close> with the same txid, the row keeps its txid and status and all other
  fields, but \<open>detected_at\<close> is overwritten with the current time: the call is not a no-op. If
  the status is \<open>confirmed\<close> or \<open>expired\<close>, the call returns null and the state is unchanged.
  The monitor does not make the call when the row it read already carries the txid.
\<close>

theorem updatePendingPaymentWithTx_effect:
  assumes "first_index (by_address a) (pending_bitcoin_payments s) = Some i"
    and "p = pending_bitcoin_payments s ! i"
  shows "(status p = Initialized \<or> status p = Pending \<longrightarrow>
            updatePendingPaymentWithTx s a tx now =
              (Some i, s\<lparr>pending_bitcoin_payments := (pending_bitcoin_payments s)
                 [i := p\<lparr>txid := Some tx, detected_at := Some now, status := Pending\<rparr>]\<rparr>))
       \<and> (status p = Pending \<and> txid p = Some tx \<longrightarrow>
            updatePendingPaymentWithTx s a tx now =
              (Some i, s\<lparr>pending_bitcoin_payments := (pending_bitcoin_payments s)
                 [i := p\<lparr>detected_at := Some now\<rparr>]\<rparr>))
       \<and> (status p = Confirmed \<or> status p = Expired \<longrightarrow>
            updatePendingPaymentWithTx s a tx now = (None, s))
       \<and> (txid p = Some tx \<longrightarrow> attach_if_new s p a tx now = s)"
proof (intro conjI impI)
  assume "status p = Initialized \<or> status p = Pending"
  then show "updatePendingPaymentWithTx s a tx now =
      (Some i, s\<lparr>pending_bitcoin_payments := (pending_bitcoin_payments s)
         [i := p\<lparr>txid := Some tx, detected_at := Some now, status := Pending\<rparr>]\<rparr>)"
    using attach_live[OF assms(1)] assms(2) by simp
next
  assume same: "status p = Pending \<and> txid p = Some tx"
  then have "updatePendingPaymentWithTx s a tx now =
      (Some i, s\<lparr>pending_bitcoin_payments := (pending_bitcoin_payments s)
         [i := p\<lparr>txid := Some tx, detected_at := Some now, status := Pending\<rparr>]\<rparr>)"
    using attach_live[OF assms(1)] assms(2) by simp
  then show "updatePendingPaymentWithTx s a tx now =
      (Some i, s\<lparr>pending_bitcoin_payments := (pending_bitcoin_payments s)
         [i := p\<lparr>detected_at := Some now\<rparr>]\<rparr>)"
    using same by (simp add: attach_same_txid_row)
next
  assume "status p = Confirmed \<or> status p = Expired"
  then show "updatePendingPaymentWithTx s a tx now = (None, s)"
    using attach_terminal[OF assms(1)] assms(2) by simp
next
  assume "txid p = Some tx"
  then show "attach_if_new s p a tx now = s" by (simp add: attach_if_new_def)
qed

text \<open>
  The theorem at a pending row that already carries the txid, and at an expired row.
\<close>

theorem updatePendingPaymentWithTx_effect_witness:
  "updatePendingPaymentWithTx example_state example_address ''abc'' 200 =
     (Some 0, example_state\<lparr>pending_bitcoin_payments :=
                [example_row\<lparr>detected_at := Some 200\<rparr>]\<rparr>)
   \<and> updatePendingPaymentWithTx
        (example_state\<lparr>pending_bitcoin_payments := [example_row\<lparr>status := Expired\<rparr>]\<rparr>)
        example_address ''abc'' 200 =
     (None, example_state\<lparr>pending_bitcoin_payments := [example_row\<lparr>status := Expired\<rparr>]\<rparr>)"
proof -
  have i1: "first_index (by_address example_address)
              (pending_bitcoin_payments example_state) = Some 0"
    by (simp add: example_state_def example_row_def by_address_def)
  have p1: "example_row = pending_bitcoin_payments example_state ! 0"
    by (simp add: example_state_def)
  have st1: "status example_row = Pending \<and> txid example_row = Some ''abc''"
    by (simp add: example_row_def)
  have i2: "first_index (by_address example_address)
              (pending_bitcoin_payments
                (example_state\<lparr>pending_bitcoin_payments := [example_row\<lparr>status := Expired\<rparr>]\<rparr>))
            = Some 0"
    by (simp add: example_row_def by_address_def)
  have a: "updatePendingPaymentWithTx example_state example_address ''abc'' 200 =
     (Some 0, example_state\<lparr>pending_bitcoin_payments :=
                [example_row\<lparr>detected_at := Some 200\<rparr>]\<rparr>)"
    using updatePendingPaymentWithTx_effect[OF i1 p1, of "''abc''" 200] st1
    by (simp add: example_state_def)
  have b: "updatePendingPaymentWithTx
        (example_state\<lparr>pending_bitcoin_payments := [example_row\<lparr>status := Expired\<rparr>]\<rparr>)
        example_address ''abc'' 200 =
     (None, example_state\<lparr>pending_bitcoin_payments := [example_row\<lparr>status := Expired\<rparr>]\<rparr>)"
    using updatePendingPaymentWithTx_effect[OF i2 refl, of "''abc''" 200] by simp
  show ?thesis using a b by simp
qed

text \<open>
  The claim as stated fails: a pending row that already carries the txid \<open>abc\<close>, first
  detected at time 100, is rewritten by the call at time 200.
\<close>

theorem updatePendingPaymentWithTx_same_txid_counterexample:
  "status example_row = Pending \<and> txid example_row = Some ''abc''
   \<and> map detected_at (pending_bitcoin_payments example_state) = [Some 100]
   \<and> map detected_at (pending_bitcoin_payments
        (snd (updatePendingPaymentWithTx example_state example_address ''abc'' 200)))
      = [Some 200]
   \<and> snd (updatePendingPaymentWithTx example_state example_address ''abc'' 200) \<noteq> example_state"
proof -
  have upd: "pending_bitcoin_payments
        (snd (updatePendingPaymentWithTx example_state example_address ''abc'' 200))
      = [example_row\<lparr>detected_at := Some 200\<rparr>]"
    by (simp add: updatePendingPaymentWithTx_def example_state_def example_row_def
        by_address_def)
  have old: "pending_bitcoin_payments example_state = [example_row]"
    by (simp add: example_state_def)
  have ne: "[example_row\<lparr>detected_at := Some 200\<rparr>] \<noteq> [example_row]"
    by (simp add: example_row_def)
  have "snd (updatePendingPaymentWithTx example_state example_address ''abc'' 200) \<noteq> example_state"
    using upd old ne by metis
  then show ?thesis using upd old by (simp add: example_row_def)
qed

subsection \<open>The derivation counter\<close>




lemma getNext_fst: "fst (getNextDerivationIndex s) = next_index s"
  by (simp add: getNextDerivationIndex_def next_index_def split: option.splits)

lemma getNext_snd: "next_index (snd (getNextDerivationIndex s)) = next_index s + 1"
  by (simp add: getNextDerivationIndex_def next_index_def split: option.splits)

lemma commit_bitcoin_config:
  "t \<noteq> GetNextDerivationIndex \<Longrightarrow> bitcoin_config (commit t s) = bitcoin_config s"
  by (cases t)
     (auto simp: createPendingBitcoinPayment_def updatePendingPaymentJobId_def
        updatePendingPaymentWithTx_def updatePendingPaymentStatus_def markPaymentExpired_def
        createDonationFromPayment_def cleanupExpiredPendingPayments_def runAfter_def
        limit_generateAddress_def limit_checkPayment_def Let_def
        split: option.splits sum.splits if_splits prod.splits)

lemma commit_next_index_mono: "next_index s \<le> next_index (commit t s)"
proof (cases "t = GetNextDerivationIndex")
  case True
  then show ?thesis using getNext_snd[of s] by simp
next
  case False
  then show ?thesis using commit_bitcoin_config[OF False, of s] by (simp add: next_index_def)
qed

lemma indices_returned_step:
  "indices_returned (t # ts) s =
     (if t = GetNextDerivationIndex then [next_index s] else []) @ indices_returned ts (commit t s)"
  by (cases t) (simp_all add: getNext_fst)

lemma indices_returned_lower:
  "x \<in> set (indices_returned ts s) \<Longrightarrow> next_index s \<le> x"
proof (induction ts arbitrary: s)
  case Nil
  then show ?case by simp
next
  case (Cons t ts)
  have mono: "next_index s \<le> next_index (commit t s)" by (rule commit_next_index_mono)
  from Cons.prems have "x = next_index s \<or> x \<in> set (indices_returned ts (commit t s))"
    by (auto simp: indices_returned_step simp del: indices_returned.simps split: if_splits)
  then show ?case using Cons.IH[of "commit t s"] mono by auto
qed

lemma indices_returned_increasing: "sorted_wrt (<) (indices_returned ts s)"
proof (induction ts arbitrary: s)
  case Nil
  then show ?case by simp
next
  case (Cons t ts)
  show ?case
  proof (cases "t = GetNextDerivationIndex")
    case True
    have "\<forall>x \<in> set (indices_returned ts (commit t s)). next_index s < x"
    proof
      fix x assume "x \<in> set (indices_returned ts (commit t s))"
      then have "next_index (commit t s) \<le> x" by (rule indices_returned_lower)
      then show "next_index s < x" using True getNext_snd[of s] by simp
    qed
    then show ?thesis using Cons.IH[of "commit t s"] True
      by (simp add: indices_returned_step del: indices_returned.simps commit.simps)
  next
    case False
    then show ?thesis using Cons.IH[of "commit t s"]
      by (simp add: indices_returned_step del: indices_returned.simps commit.simps)
  qed
qed

lemma indices_returned_replicate:
  "indices_returned (replicate k GetNextDerivationIndex) s = map (\<lambda>j. next_index s + int j) [0..<k]"
proof (induction k arbitrary: s)
  case 0
  then show ?case by simp
next
  case (Suc k)
  have "map (\<lambda>j. next_index s + int j) [0..<Suc k] =
        next_index s # map (\<lambda>j. next_index s + 1 + int j) [0..<k]"
    by (simp add: upt_conv_Cons map_Suc_upt[symmetric] del: upt_Suc)
  then show ?case using Suc.IH[of "snd (getNextDerivationIndex s)"]
    by (simp add: getNext_fst getNext_snd del: upt_Suc)
qed




lemma limit_generateAddress_frame:
  "pending_bitcoin_payments (snd (limit_generateAddress s k now)) = pending_bitcoin_payments s"
  "bitcoin_config (snd (limit_generateAddress s k now)) = bitcoin_config s"
  "donations (snd (limit_generateAddress s k now)) = donations s"
  "scheduled (snd (limit_generateAddress s k now)) = scheduled s"
  "explorer_queries (snd (limit_generateAddress s k now)) = explorer_queries s"
  by (simp_all add: limit_generateAddress_def Let_def)

lemma checkExisting_cong:
  "pending_bitcoin_payments s' = pending_bitcoin_payments s \<Longrightarrow>
   checkExistingPaymentSession s' sid amt now = checkExistingPaymentSession s sid amt now"
  by (simp add: checkExistingPaymentSession_def)

lemma generate_new_index:
  assumes "generateBitcoinAddress derive price nl nq nc s amt sid md = (Inr r, s')"
    and "checkExistingPaymentSession s sid amt nq = None"
  shows "result_derivation_index r = fst (getNextDerivationIndex s)
       \<and> bitcoin_config s' = bitcoin_config (snd (getNextDerivationIndex s))"
proof -
  obtain ok s1 where l: "limit_generateAddress s sid nl = (ok, s1)" by (cases "limit_generateAddress s sid nl")
  have s1: "pending_bitcoin_payments s1 = pending_bitcoin_payments s" "bitcoin_config s1 = bitcoin_config s"
    using limit_generateAddress_frame(1,2)[of s sid nl] l by simp_all
  have ex: "checkExistingPaymentSession s1 sid amt nq = None"
    using assms(2) checkExisting_cong[OF s1(1)] by simp
  have g: "fst (getNextDerivationIndex s1) = fst (getNextDerivationIndex s)"
     "bitcoin_config (snd (getNextDerivationIndex s1)) = bitcoin_config (snd (getNextDerivationIndex s))"
    using s1(2) by (simp_all add: getNextDerivationIndex_def split: option.splits)
  from assms(1) l ex show ?thesis
    unfolding generateBitcoinAddress_def
    apply (simp split: sum.splits bool.splits prod.splits add: Let_def)
    apply (auto simp: g[symmetric] createPendingBitcoinPayment_def runAfter_def updatePendingPaymentJobId_def
         split: option.splits)
    done
qed


text \<open>
  C5. \<open>getNextDerivationIndex\<close> returns the prior counter and stores its successor; the first
  call, on the absent row, returns 0 and stores 1. Along every history of transactions,
  whatever else commits in between, the indices handed out are strictly increasing, and
  \<open>k\<close> calls from the initial state hand out 0, 1, ..., k - 1. A \<open>generateBitcoinAddress\<close>
  that succeeds without an existing session returns the index that \<open>getNextDerivationIndex\<close>
  hands out at that point and leaves the counter bumped by it.
\<close>

theorem getNextDerivationIndex_strictly_increasing:
  "(bitcoin_config s = None \<longrightarrow>
      getNextDerivationIndex s = (0, s\<lparr>bitcoin_config := Some 1\<rparr>))
   \<and> (bitcoin_config s = Some n \<longrightarrow>
      getNextDerivationIndex s = (n, s\<lparr>bitcoin_config := Some (n + 1)\<rparr>))
   \<and> sorted_wrt (<) (indices_returned ts s)
   \<and> indices_returned (replicate k GetNextDerivationIndex) initial_state = map int [0..<k]
   \<and> (generateBitcoinAddress derive price nl nq nc s amt sid md = (Inr r, s')
        \<and> checkExistingPaymentSession s sid amt nq = None \<longrightarrow>
        result_derivation_index r = fst (getNextDerivationIndex s)
        \<and> bitcoin_config s' = bitcoin_config (snd (getNextDerivationIndex s)))"
proof (intro conjI impI)
  show "sorted_wrt (<) (indices_returned ts s)" by (rule indices_returned_increasing)
  show "indices_returned (replicate k GetNextDerivationIndex) initial_state = map int [0..<k]"
    by (simp add: indices_returned_replicate next_index_def initial_state_def)
next
  assume "bitcoin_config s = None"
  then show "getNextDerivationIndex s = (0, s\<lparr>bitcoin_config := Some 1\<rparr>)"
    by (simp add: getNextDerivationIndex_def)
next
  assume "bitcoin_config s = Some n"
  then show "getNextDerivationIndex s = (n, s\<lparr>bitcoin_config := Some (n + 1)\<rparr>)"
    by (simp add: getNextDerivationIndex_def)
next
  assume g: "generateBitcoinAddress derive price nl nq nc s amt sid md = (Inr r, s')
        \<and> checkExistingPaymentSession s sid amt nq = None"
  then show "result_derivation_index r = fst (getNextDerivationIndex s)"
    and "bitcoin_config s' = bitcoin_config (snd (getNextDerivationIndex s))"
    using generate_new_index[of derive price nl nq nc s amt sid md r s'] by simp_all
qed

lemma example_generated_eq:
  "example_generated =
     (Inr \<lparr>result_address = example_address, result_amount_btc = 1 / 1000,
           result_amount_usd = 100, result_exchange_rate = 100000,
           result_derivation_index = 0\<rparr>,
      \<lparr>donations = [], bitcoin_config = Some 1,
       pending_bitcoin_payments =
         [\<lparr>session_id = ''s1'', address = example_address, expected_amount_btc = 1 / 1000,
           expected_amount_usd = 100, exchange_rate = 100000, derivation_index = 0,
           metadata = None, status = Initialized, txid = None, detected_at = None,
           scheduled_job_id = Some 0, created_at = 0, expires_at = 86400000\<rparr>],
       scheduled = [\<lparr>job_delay = 10000, job_address = example_address,
                     job_expected_amount_btc = 1 / 1000, job_derivation_index = 0\<rparr>],
       generateAddress_limit = [''s1'' \<mapsto> \<lparr>bucket_tokens = 0, bucket_ts = 0\<rparr>],
       checkPayment_limit = Map.empty, explorer_queries = []\<rparr>)"
  by (simp add: example_generated_def example_derive_def generateBitcoinAddress_def
      validateDonationAmount_def
      minDonationAmount_def maxDonationAmount_def limit_generateAddress_def initial_state_def
      checkExistingPaymentSession_def getNextDerivationIndex_def createPendingBitcoinPayment_def
      runAfter_def updatePendingPaymentJobId_def by_address_def Let_def)

theorem getNextDerivationIndex_strictly_increasing_witness:
  "getNextDerivationIndex initial_state = (0, initial_state\<lparr>bitcoin_config := Some 1\<rparr>)
   \<and> getNextDerivationIndex (initial_state\<lparr>bitcoin_config := Some 5\<rparr>)
       = (5, initial_state\<lparr>bitcoin_config := Some 6\<rparr>)
   \<and> indices_returned
        [GetNextDerivationIndex, UpdatePendingPaymentStatus ''a'' Expired,
         GetNextDerivationIndex, GetNextDerivationIndex] initial_state = [0, 1, 2]
   \<and> result_derivation_index (projr (fst example_generated)) = 0
   \<and> bitcoin_config (snd example_generated) = Some 1"
proof -
  have c0: "bitcoin_config initial_state = None" by (simp add: initial_state_def)
  have c5: "bitcoin_config (initial_state\<lparr>bitcoin_config := Some 5\<rparr>) = Some 5" by simp
  have g: "generateBitcoinAddress example_derive (Inr 100000) 0 0 0 initial_state
             100 ''s1'' None = (Inr (projr (fst example_generated)), snd example_generated)
           \<and> checkExistingPaymentSession initial_state ''s1'' 100 0 = None"
    using example_generated_eq
    by (simp add: example_generated_def checkExistingPaymentSession_def initial_state_def)
  have a: "getNextDerivationIndex initial_state = (0, initial_state\<lparr>bitcoin_config := Some 1\<rparr>)"
    using getNextDerivationIndex_strictly_increasing[of initial_state] c0 by blast
  have b: "getNextDerivationIndex (initial_state\<lparr>bitcoin_config := Some 5\<rparr>)
       = (5, initial_state\<lparr>bitcoin_config := Some 6\<rparr>)"
    using getNextDerivationIndex_strictly_increasing[of "initial_state\<lparr>bitcoin_config := Some 5\<rparr>" 5] c5
    by simp
  have c: "indices_returned
        [GetNextDerivationIndex, UpdatePendingPaymentStatus ''a'' Expired,
         GetNextDerivationIndex, GetNextDerivationIndex] initial_state = [0, 1, 2]"
    by (simp add: getNextDerivationIndex_def updatePendingPaymentStatus_def initial_state_def)
  have d: "result_derivation_index (projr (fst example_generated)) = fst (getNextDerivationIndex initial_state)
        \<and> bitcoin_config (snd example_generated) = bitcoin_config (snd (getNextDerivationIndex initial_state))"
    using getNextDerivationIndex_strictly_increasing[of initial_state _ _ _
        example_derive "Inr 100000" 0 0 0 100 "''s1''" None
        "projr (fst example_generated)" "snd example_generated"] g
    by blast
  show ?thesis using a b c d by simp
qed

subsection \<open>The donation ledger\<close>


lemma filter_empty_find: "filter P xs = [] \<longleftrightarrow> find P xs = None"
  by (induction xs) auto

lemma createDonation_exists:
  "find (by_payment_id a) (donations s) \<noteq> None \<Longrightarrow>
   createDonationFromPayment s a u n m = (False, s)"
  by (auto simp: createDonationFromPayment_def)

lemma createDonation_new:
  "find (by_payment_id a) (donations s) = None \<Longrightarrow>
   createDonationFromPayment s a u n m =
     (True, s\<lparr>donations := donations s @
        [\<lparr>amount = u, display_name = n, payment_id = a, payment_method = Bitcoin,
          donation_message = m\<rparr>]\<rparr>)"
  by (simp add: createDonationFromPayment_def)

lemma createDonation_count:
  "length (donations_for b (snd (createDonationFromPayment s a u n m))) =
     (if a = b \<and> donations_for b s = [] then 1 else length (donations_for b s))"
  by (auto simp: createDonationFromPayment_def donations_for_def by_payment_id_def
      filter_empty_find split: option.splits)

lemma commit_count:
  "length (donations_for b (commit t s)) =
     (if creates_donation_for b t \<and> donations_for b s = [] then 1 else length (donations_for b s))"
proof (cases t)
  case (CreateDonationFromPayment a u n m)
  then show ?thesis using createDonation_count[of b s a u n m] by auto
qed (auto simp: getNextDerivationIndex_def createPendingBitcoinPayment_def updatePendingPaymentJobId_def
        updatePendingPaymentWithTx_def updatePendingPaymentStatus_def markPaymentExpired_def
        cleanupExpiredPendingPayments_def runAfter_def donations_for_def
        limit_generateAddress_def limit_checkPayment_def Let_def
        split: option.splits sum.splits if_splits prod.splits)

lemma run_count:
  "length (donations_for b (run ts s)) =
     (if donations_for b s = [] then (if \<exists>t \<in> set ts. creates_donation_for b t then 1 else 0)
      else length (donations_for b s))"
proof (induction ts arbitrary: s)
  case Nil
  then show ?case by simp
next
  case (Cons t ts)
  show ?case
    using Cons.IH[of "commit t s"] commit_count[of b t s]
    by (auto simp del: commit.simps split: if_splits)
qed

lemma run_at_most_one:
  "length (donations_for b s) \<le> 1 \<Longrightarrow> length (donations_for b (run ts s)) \<le> 1"
  using run_count[of b ts s] by (auto split: if_splits)

lemma updatePendingPaymentStatus_donations:
  "donations (snd (updatePendingPaymentStatus s a st)) = donations s"
  by (simp add: updatePendingPaymentStatus_def split: option.splits)

lemma updatePendingPaymentWithTx_donations:
  "donations (snd (updatePendingPaymentWithTx s a tx now)) = donations s"
  by (simp add: updatePendingPaymentWithTx_def Let_def split: option.splits)

lemma reschedule_donations: "donations (reschedule s a e i) = donations s"
  by (simp add: reschedule_def runAfter_def)

lemma attach_if_new_donations: "donations (attach_if_new s p a tx now) = donations s"
  by (simp add: attach_if_new_def updatePendingPaymentWithTx_donations)


lemma createDonation_donations_cong:
  "donations s1 = donations s \<Longrightarrow>
   donations (snd (createDonationFromPayment s1 a u n m)) =
   donations (snd (createDonationFromPayment s a u n m))"
  by (simp add: createDonationFromPayment_def split: option.splits)

lemma monitor_donations:
  "donations (monitorSinglePayment net probe now now_tx s a e idx) = donations s
   \<or> (\<exists>u n m. donations (monitorSinglePayment net probe now now_tx s a e idx) =
               donations (snd (createDonationFromPayment s a u n m)))"
proof -
  have q: "\<And>u n m. donations (snd (createDonationFromPayment
               (s\<lparr>explorer_queries := explorer_queries s @ [a]\<rparr>) a u n m)) =
             donations (snd (createDonationFromPayment s a u n m))"
    by (rule createDonation_donations_cong) simp
  show ?thesis
    unfolding monitorSinglePayment_def getPendingPaymentByAddressInternal_def
      checkBlockchainPayment_def
    by (simp add: Let_def split_def updatePendingPaymentStatus_donations reschedule_donations
         attach_if_new_donations q split: option.splits probe_result.splits) blast
qed

lemma limit_checkPayment_donations: "donations (snd (limit_checkPayment s k now)) = donations s"
  by (simp add: limit_checkPayment_def Let_def)

lemma check_donations:
  "donations (snd (checkBitcoinPayment net probe price now nl s a sid ex md)) = donations s
   \<or> (\<exists>u n m. donations (snd (checkBitcoinPayment net probe price now nl s a sid ex md)) =
               donations (snd (createDonationFromPayment s a u n m)))"
proof -
  have q: "\<And>u n m. donations (snd (createDonationFromPayment
               ((snd (limit_checkPayment s sid nl))\<lparr>explorer_queries := 
                  explorer_queries (snd (limit_checkPayment s sid nl)) @ [a]\<rparr>) a u n m)) =
             donations (snd (createDonationFromPayment s a u n m))"
    by (rule createDonation_donations_cong) (simp add: limit_checkPayment_donations)
  show ?thesis
    unfolding checkBitcoinPayment_def checkBlockchainPayment_def
    by (simp add: Let_def split_def updatePendingPaymentStatus_donations limit_checkPayment_donations
          q split: option.splits probe_result.splits sum.splits bool.splits) blast
qed

lemma donations_for_cong: "donations s1 = donations s \<Longrightarrow> donations_for b s1 = donations_for b s"
  by (simp add: donations_for_def)

lemma monitor_at_most_one:
  assumes "length (donations_for b s) \<le> 1"
  shows "length (donations_for b (monitorSinglePayment net probe now now_tx s a e idx)) \<le> 1"
  using monitor_donations[of net probe now now_tx s a e idx] assms
    createDonation_count[of b s a]
  by (auto simp: donations_for_def split: if_splits)

lemma check_at_most_one:
  assumes "length (donations_for b s) \<le> 1"
  shows "length (donations_for b (snd (checkBitcoinPayment net probe price now nl s a sid ex md))) \<le> 1"
  using check_donations[of net probe price now nl s a sid ex md] assms
    createDonation_count[of b s a]
  by (auto simp: donations_for_def split: if_splits)


lemma generate_donations:
  "donations (snd (generateBitcoinAddress derive price nl nq nc s amt sid md)) = donations s"
  unfolding generateBitcoinAddress_def
  by (simp add: Let_def split_def limit_generateAddress_def getNextDerivationIndex_def
        createPendingBitcoinPayment_def runAfter_def updatePendingPaymentJobId_def
      split: option.splits sum.splits bool.splits)

lemma occur_at_most_one:
  assumes "length (donations_for b s) \<le> 1"
  shows "length (donations_for b (occur e s)) \<le> 1"
proof (cases e)
  case (Transaction t)
  then show ?thesis using assms commit_count[of b t s] by (auto split: if_splits)
next
  case (MonitorRun net probe now now_tx a expected idx)
  then show ?thesis using monitor_at_most_one[OF assms] by simp
next
  case (CheckRun net probe price now now_limit a sid expected md)
  then show ?thesis using check_at_most_one[OF assms] by simp
next
  case (GenerateRun derive price nl nq nc amt sid md)
  then show ?thesis using assms donations_for_cong[OF generate_donations] by simp
qed

lemma history_at_most_one:
  "length (donations_for b s) \<le> 1 \<Longrightarrow> length (donations_for b (history es s)) \<le> 1"
proof (induction es arbitrary: s)
  case Nil
  then show ?case by simp
next
  case (Cons e es)
  then show ?case using occur_at_most_one[of b s e] by simp
qed

text \<open>
  C1. In every state reached from the empty database by a history of single transactions
  and whole runs of the monitor, of \<open>checkBitcoinPayment\<close> and of \<open>generateBitcoinAddress\<close>,
  in any order and with any arguments, the ledger holds at most one donation per address.
  \<open>createDonationFromPayment\<close> returns false and changes nothing when a donation with that
  \<open>payment_id\<close> exists, and otherwise returns true and appends exactly one row. After any
  history of transactions the ledger holds exactly one donation for an address if
  \<open>createDonationFromPayment\<close> was called for it at least once, however often, and none
  otherwise.
\<close>

theorem createDonationFromPayment_exactly_once:
  "length (donations_for b (history es initial_state)) \<le> 1
   \<and> (find (by_payment_id a) (donations s) \<noteq> None \<longrightarrow>
        createDonationFromPayment s a u n m = (False, s))
   \<and> (find (by_payment_id a) (donations s) = None \<longrightarrow>
        createDonationFromPayment s a u n m =
          (True, s\<lparr>donations := donations s @
             [\<lparr>amount = u, display_name = n, payment_id = a, payment_method = Bitcoin,
               donation_message = m\<rparr>]\<rparr>))
   \<and> length (donations_for b (run ts initial_state)) =
        (if \<exists>t \<in> set ts. creates_donation_for b t then 1 else 0)"
proof (intro conjI)
  have e: "donations_for b initial_state = []"
    by (simp add: donations_for_def initial_state_def)
  show "length (donations_for b (history es initial_state)) \<le> 1"
    by (rule history_at_most_one) (simp add: e)
  show "find (by_payment_id a) (donations s) \<noteq> None \<longrightarrow>
        createDonationFromPayment s a u n m = (False, s)"
    using createDonation_exists by blast
  show "find (by_payment_id a) (donations s) = None \<longrightarrow>
        createDonationFromPayment s a u n m =
          (True, s\<lparr>donations := donations s @
             [\<lparr>amount = u, display_name = n, payment_id = a, payment_method = Bitcoin,
               donation_message = m\<rparr>]\<rparr>)"
    using createDonation_new by blast
  show "length (donations_for b (run ts initial_state)) =
        (if \<exists>t \<in> set ts. creates_donation_for b t then 1 else 0)"
    using run_count[of b ts initial_state] e by simp
qed

text \<open>
  The theorem at the empty ledger, at a ledger that holds the donation, and at a history
  with three calls for the same address.
\<close>

theorem createDonationFromPayment_exactly_once_witness:
  "createDonationFromPayment initial_state example_address 100 ''Anonymous'' None =
     (True, commit example_donation_args initial_state)
   \<and> createDonationFromPayment (commit example_donation_args initial_state)
        example_address 250 ''Bob'' None =
     (False, commit example_donation_args initial_state)
   \<and> length (donations_for example_address
        (run [example_donation_args, UpdatePendingPaymentStatus example_address Confirmed,
              example_donation_args, example_donation_args] initial_state)) = 1"
proof -
  have none: "find (by_payment_id example_address) (donations initial_state) = None"
    by (simp add: initial_state_def)
  have c: "commit example_donation_args initial_state =
      initial_state\<lparr>donations := donations initial_state @
             [\<lparr>amount = 100, display_name = ''Anonymous'', payment_id = example_address,
               payment_method = Bitcoin, donation_message = None\<rparr>]\<rparr>"
    by (simp add: example_donation_args_def createDonationFromPayment_def initial_state_def)
  have some: "find (by_payment_id example_address)
                (donations (commit example_donation_args initial_state)) \<noteq> None"
    unfolding c by (simp add: by_payment_id_def initial_state_def)
  have ex: "\<exists>t \<in> set [example_donation_args,
              UpdatePendingPaymentStatus example_address Confirmed,
              example_donation_args, example_donation_args].
            creates_donation_for example_address t"
    by (simp add: example_donation_args_def)
  have 1: "createDonationFromPayment initial_state example_address 100 ''Anonymous'' None =
     (True, commit example_donation_args initial_state)"
    using createDonationFromPayment_exactly_once[of _ _ example_address initial_state
        100 "''Anonymous''" None] none c by simp
  have 2: "createDonationFromPayment (commit example_donation_args initial_state)
        example_address 250 ''Bob'' None =
     (False, commit example_donation_args initial_state)"
    using createDonationFromPayment_exactly_once[of _ _ example_address
        "commit example_donation_args initial_state" 250 "''Bob''" None] some by blast
  have 3: "length (donations_for example_address
        (run [example_donation_args, UpdatePendingPaymentStatus example_address Confirmed,
              example_donation_args, example_donation_args] initial_state)) = 1"
    using createDonationFromPayment_exactly_once[of example_address _ _ _ _ _ _
        "[example_donation_args, UpdatePendingPaymentStatus example_address Confirmed,
              example_donation_args, example_donation_args]"] ex by presburger
  show ?thesis using 1 2 3 by blast
qed

subsection \<open>The price oracle\<close>


















subsection \<open>The monitor and the payment check at a confirmed transaction\<close>


lemma updatePendingPaymentStatus_found:
  assumes "first_index (by_address a) (pending_bitcoin_payments s) = Some i"
  shows "updatePendingPaymentStatus s a st =
     (Some i, s\<lparr>pending_bitcoin_payments :=
        (pending_bitcoin_payments s)[i := (pending_bitcoin_payments s ! i)\<lparr>status := st\<rparr>]\<rparr>)"
  using assms by (simp add: updatePendingPaymentStatus_def patch_first_update)

lemma monitor_found:
  assumes "first_index (by_address a) (pending_bitcoin_payments s) = Some i"
  shows "getPendingPaymentByAddressInternal s a = Some (pending_bitcoin_payments s ! i)"
  using first_index_SomeD[OF assms] by (simp add: getPendingPaymentByAddressInternal_def)

lemma monitor_timeout:
  assumes idx: "first_index (by_address a) (pending_bitcoin_payments s) = Some i"
    and p: "p = pending_bitcoin_payments s ! i"
    and live: "status p = Initialized \<or> status p = Pending"
    and late: "now > expires_at p"
  shows "monitorSinglePayment net probe now now_tx s a expected idx' =
     s\<lparr>pending_bitcoin_payments := (pending_bitcoin_payments s)[i := p\<lparr>status := Expired\<rparr>]\<rparr>"
  using live late p
  by (auto simp: monitorSinglePayment_def monitor_found[OF idx] updatePendingPaymentStatus_found[OF idx])

lemma queried_first_index:
  "first_index (by_address a) (pending_bitcoin_payments (s\<lparr>explorer_queries := q\<rparr>)) =
   first_index (by_address a) (pending_bitcoin_payments s)"
  by simp

lemma createDonation_pending:
  "pending_bitcoin_payments (snd (createDonationFromPayment s a u n m)) = pending_bitcoin_payments s"
  by (simp add: createDonationFromPayment_def split: option.splits)



lemma limit_checkPayment_frame:
  "pending_bitcoin_payments (snd (limit_checkPayment s k now)) = pending_bitcoin_payments s"
  "donations (snd (limit_checkPayment s k now)) = donations s"
  "bitcoin_config (snd (limit_checkPayment s k now)) = bitcoin_config s"
  "scheduled (snd (limit_checkPayment s k now)) = scheduled s"
  "explorer_queries (snd (limit_checkPayment s k now)) = explorer_queries s"
  by (simp_all add: limit_checkPayment_def Let_def)

lemma check_confirmed_stage:
  assumes va: "validateBitcoinAddress a net = Inr ()"
    and vs: "validateSessionOwnsAddress s sid a now = Inr True"
    and lim: "fst (limit_checkPayment s sid nl)"
    and idx: "first_index (by_address a) (pending_bitcoin_payments s) = Some i"
    and p: "p = pending_bitcoin_payments s ! i"
    and pr: "probe a = Paid tx amt conf"
    and cf: "bitcoinConfirmations net \<le> conf"
    and under: "rejected = (case ex of None \<Rightarrow> False
          | Some e \<Rightarrow> e \<noteq> 0 \<and> abs (amt - e) > btcAmountTolerance \<and> amt < e)"
  shows "checkBitcoinPayment net probe price now nl s a sid ex md =
     (let s2 = (snd (limit_checkPayment s sid nl))\<lparr>explorer_queries := explorer_queries s @ [a]\<rparr> in
      if rejected
      then (Inl (CheckFailed Underpayment), s2)
      else
        (case price of
           Inl err \<Rightarrow> (Inl (CheckFailed err), s2)
         | Inr bp \<Rightarrow>
             (case validateDonationAmount (amt * bp) of
                Inl err \<Rightarrow> (Inl (CheckFailed err), s2)
              | Inr _ \<Rightarrow>
                  (Inr (PaidInfo tx amt conf (bitcoinConfirmations net)),
                   (snd (createDonationFromPayment s2 a (amt * bp)
                          (getDisplayName md ''Anonymous'') (Option.bind md message)))
                     \<lparr>pending_bitcoin_payments :=
                        (pending_bitcoin_payments s)[i := p\<lparr>status := Confirmed\<rparr>]\<rparr>))))"
proof -
  obtain s1 where l: "limit_checkPayment s sid nl = (True, s1)"
    using lim by (cases "limit_checkPayment s sid nl") auto
  have f1: "pending_bitcoin_payments s1 = pending_bitcoin_payments s"
    "explorer_queries s1 = explorer_queries s"
    using limit_checkPayment_frame(1,5)[of s sid nl] l by simp_all
  let ?s2 = "s1\<lparr>explorer_queries := explorer_queries s @ [a]\<rparr>"
  have u: "\<And>u n m. snd (updatePendingPaymentStatus (snd (createDonationFromPayment ?s2 a u n m)) a Confirmed)
      = (snd (createDonationFromPayment ?s2 a u n m))
          \<lparr>pending_bitcoin_payments := (pending_bitcoin_payments s)[i := p\<lparr>status := Confirmed\<rparr>]\<rparr>"
  proof -
    fix u n m
    have pp: "pending_bitcoin_payments (snd (createDonationFromPayment ?s2 a u n m)) = pending_bitcoin_payments s"
      using f1 by (simp add: createDonation_pending)
    then have "first_index (by_address a)
        (pending_bitcoin_payments (snd (createDonationFromPayment ?s2 a u n m))) = Some i"
      using idx by simp
    from updatePendingPaymentStatus_found[OF this, of Confirmed] pp p
    show "snd (updatePendingPaymentStatus (snd (createDonationFromPayment ?s2 a u n m)) a Confirmed)
      = (snd (createDonationFromPayment ?s2 a u n m))
          \<lparr>pending_bitcoin_payments := (pending_bitcoin_payments s)[i := p\<lparr>status := Confirmed\<rparr>]\<rparr>"
      by simp
  qed
  show ?thesis
  proof (cases rejected)
    case True
    then have "(case ex of None \<Rightarrow> False
          | Some e \<Rightarrow> e \<noteq> 0 \<and> abs (amt - e) > btcAmountTolerance \<and> amt < e) = True"
      using under by simp
    then show ?thesis
      unfolding checkBitcoinPayment_def checkBlockchainPayment_def
      using va vs l pr cf f1 True
      by (simp only: Let_def split_def sum.case prod.case fst_conv snd_conv simp_thms
            if_True if_False probe_result.case) simp
  next
    case False
    then have "(case ex of None \<Rightarrow> False
          | Some e \<Rightarrow> e \<noteq> 0 \<and> abs (amt - e) > btcAmountTolerance \<and> amt < e) = False"
      using under by simp
    then show ?thesis
      unfolding checkBitcoinPayment_def checkBlockchainPayment_def
      using va vs l pr cf f1 False
      by (simp only: Let_def split_def sum.case prod.case fst_conv snd_conv simp_thms
            if_True if_False probe_result.case)
         (simp add: u split: sum.splits)
  qed
qed


lemma createDonation_frame:
  "scheduled (snd (createDonationFromPayment s a u n m)) = scheduled s"
  "explorer_queries (snd (createDonationFromPayment s a u n m)) = explorer_queries s"
  "bitcoin_config (snd (createDonationFromPayment s a u n m)) = bitcoin_config s"
  by (simp_all add: createDonationFromPayment_def split: option.splits)

lemma example_address_valid: "validateBitcoinAddress example_address Mainnet = Inr ()"
  by (simp add: validateBitcoinAddress_def example_address_def bech32Charset_def invalidBech32Chars_def)

text \<open>
  C6. When the row found for the address is \<open>initialized\<close> or \<open>pending\<close> and the clock is past
  its \<open>expires_at\<close>, one run of the monitor changes the status of that row to \<open>expired\<close> and
  nothing else: no other field of the row, no other row, no explorer query, no donation, no
  scheduled job, whatever the explorer would have answered.
\<close>

theorem monitorSinglePayment_expires:
  assumes "first_index (by_address a) (pending_bitcoin_payments s) = Some i"
    and "p = pending_bitcoin_payments s ! i"
    and "status p = Initialized \<or> status p = Pending"
    and "now > expires_at p"
  shows "monitorSinglePayment net probe now now_tx s a expected idx =
           s\<lparr>pending_bitcoin_payments := (pending_bitcoin_payments s)[i := p\<lparr>status := Expired\<rparr>]\<rparr>
       \<and> explorer_queries (monitorSinglePayment net probe now now_tx s a expected idx) =
           explorer_queries s
       \<and> donations (monitorSinglePayment net probe now now_tx s a expected idx) = donations s
       \<and> scheduled (monitorSinglePayment net probe now now_tx s a expected idx) = scheduled s"
  using monitor_timeout[OF assms, of net probe now_tx expected idx] by simp

text \<open>
  The theorem one millisecond after expiry, with an explorer that reports the full amount
  at three confirmations.
\<close>

theorem monitorSinglePayment_expires_witness:
  "monitorSinglePayment Mainnet (\<lambda>a. Paid ''abc'' (1 / 1000) 3) 86400001 86400001
     example_state example_address (1 / 1000) 0 =
   example_state\<lparr>pending_bitcoin_payments := [example_row\<lparr>status := Expired\<rparr>]\<rparr>
   \<and> donations (monitorSinglePayment Mainnet (\<lambda>a. Paid ''abc'' (1 / 1000) 3) 86400001 86400001
     example_state example_address (1 / 1000) 0) = []"
proof -
  have i: "first_index (by_address example_address)
              (pending_bitcoin_payments example_state) = Some 0"
    by (simp add: example_state_def example_row_def by_address_def)
  have p: "example_row = pending_bitcoin_payments example_state ! 0"
    by (simp add: example_state_def)
  have live: "status example_row = Initialized \<or> status example_row = Pending"
    by (simp add: example_row_def)
  have late: "86400001 > expires_at example_row" by (simp add: example_row_def)
  have d: "donations example_state = []" by (simp add: example_state_def initial_state_def)
  show ?thesis
    using monitorSinglePayment_expires[OF i p live late,
        of Mainnet "\<lambda>a. Paid ''abc'' (1 / 1000) 3" 86400001 "1 / 1000" 0] d
    by (simp add: example_state_def)
qed



lemma example_state_row:
  "first_index (by_address example_address) (pending_bitcoin_payments example_state) = Some 0"
  "example_row = pending_bitcoin_payments example_state ! 0"
  "status example_row = Initialized \<or> status example_row = Pending"
  "donations example_state = []"
  "pending_bitcoin_payments example_state = [example_row]"
  by (simp_all add: example_state_def example_row_def by_address_def initial_state_def)

lemma example_state_session:
  "validateSessionOwnsAddress example_state ''s1'' example_address 0 = Inr True"
  "fst (limit_checkPayment example_state ''s1'' 0)"
  by (simp_all add: validateSessionOwnsAddress_def limit_checkPayment_def example_state_def
      example_row_def by_address_def initial_state_def)


text \<open>
  C9. Let \<open>checkBitcoinPayment\<close> be called for a valid address by the owning session, be
  admitted by the rate limiter, and let the explorer report a confirmed transaction with at
  least the required confirmations. If \<open>expected_btc_amount\<close> is omitted or 0, the received
  amount is not compared with anything: whenever the price is available and the received
  amount times the price is within the donation bounds, the call returns the paid result,
  records a donation of that USD value (unless the address already has one) and sets the
  row to \<open>confirmed\<close>, however far the received amount is below the row's
  \<open>expected_amount_btc\<close>. If \<open>expected_btc_amount\<close> is given and not 0, an amount below it by
  more than the tolerance fails with \<open>Underpayment\<close>.
\<close>

theorem checkBitcoinPayment_without_expected_amount:
  assumes "first_index (by_address a) (pending_bitcoin_payments s) = Some i"
    and "p = pending_bitcoin_payments s ! i"
    and "probe a = Paid tx amt conf"
    and "bitcoinConfirmations net \<le> conf"
    and "validateBitcoinAddress a net = Inr ()"
    and "validateSessionOwnsAddress s sid a now = Inr True"
    and "fst (limit_checkPayment s sid now_limit)"
  shows
    "((expected_btc_amount = None \<or> expected_btc_amount = Some 0) \<and> price = Inr btcPrice
        \<and> validateDonationAmount (amt * btcPrice) = Inr () \<longrightarrow>
        fst (checkBitcoinPayment net probe price now now_limit s a sid expected_btc_amount md)
          = Inr (PaidInfo tx amt conf (bitcoinConfirmations net))
        \<and> pending_bitcoin_payments (snd (checkBitcoinPayment net probe price now now_limit s a
             sid expected_btc_amount md))
          = (pending_bitcoin_payments s)[i := p\<lparr>status := Confirmed\<rparr>]
        \<and> donations (snd (checkBitcoinPayment net probe price now now_limit s a sid
             expected_btc_amount md))
          = donations (snd (createDonationFromPayment s a (amt * btcPrice)
              (getDisplayName md ''Anonymous'') (Option.bind md message)))
        \<and> (find (by_payment_id a) (donations s) = None \<longrightarrow>
            donations (snd (checkBitcoinPayment net probe price now now_limit s a sid
              expected_btc_amount md))
            = donations s @
                [\<lparr>amount = amt * btcPrice, display_name = getDisplayName md ''Anonymous'',
                  payment_id = a, payment_method = Bitcoin,
                  donation_message = Option.bind md message\<rparr>]))
     \<and> (expected_btc_amount = Some expected \<and> expected \<noteq> 0
        \<and> abs (amt - expected) > btcAmountTolerance \<and> amt < expected \<longrightarrow>
        fst (checkBitcoinPayment net probe price now now_limit s a sid expected_btc_amount md)
          = Inl (CheckFailed Underpayment))"
proof (intro conjI impI)
  let ?C = "checkBitcoinPayment net probe price now now_limit s a sid expected_btc_amount md"
  let ?s2 = "(snd (limit_checkPayment s sid now_limit))\<lparr>explorer_queries := explorer_queries s @ [a]\<rparr>"
  note st = check_confirmed_stage[where probe = probe and a = a and price = price
        and ex = expected_btc_amount and md = md, OF assms(5,6,7,1,2,3,4)]
  {
    assume acc: "(expected_btc_amount = None \<or> expected_btc_amount = Some 0) \<and> price = Inr btcPrice
        \<and> validateDonationAmount (amt * btcPrice) = Inr ()"
    then have no: "False = (case expected_btc_amount of None \<Rightarrow> False
          | Some e \<Rightarrow> e \<noteq> 0 \<and> abs (amt - e) > btcAmountTolerance \<and> amt < e)"
      by auto
    have C: "?C = (Inr (PaidInfo tx amt conf (bitcoinConfirmations net)),
                   (snd (createDonationFromPayment ?s2 a (amt * btcPrice)
                          (getDisplayName md ''Anonymous'') (Option.bind md message)))
                     \<lparr>pending_bitcoin_payments :=
                        (pending_bitcoin_payments s)[i := p\<lparr>status := Confirmed\<rparr>]\<rparr>)"
      using st[OF no] acc by (simp add: Let_def)
    show "fst ?C = Inr (PaidInfo tx amt conf (bitcoinConfirmations net))" by (simp add: C)
    show "pending_bitcoin_payments (snd ?C) = (pending_bitcoin_payments s)[i := p\<lparr>status := Confirmed\<rparr>]"
      by (simp add: C)
    have c: "donations (snd (createDonationFromPayment ?s2 a (amt * btcPrice)
                          (getDisplayName md ''Anonymous'') (Option.bind md message)))
            = donations (snd (createDonationFromPayment s a (amt * btcPrice)
                          (getDisplayName md ''Anonymous'') (Option.bind md message)))"
      by (rule createDonation_donations_cong) (simp add: limit_checkPayment_frame)
    show d: "donations (snd ?C) = donations (snd (createDonationFromPayment s a (amt * btcPrice)
                 (getDisplayName md ''Anonymous'') (Option.bind md message)))"
      by (simp add: C c)
    {
      assume "find (by_payment_id a) (donations s) = None"
      then show "donations (snd ?C) = donations s @
                [\<lparr>amount = amt * btcPrice, display_name = getDisplayName md ''Anonymous'',
                  payment_id = a, payment_method = Bitcoin,
                  donation_message = Option.bind md message\<rparr>]"
        unfolding d by (simp add: createDonation_new)
    }
  }
  {
    assume under: "expected_btc_amount = Some expected \<and> expected \<noteq> 0
        \<and> abs (amt - expected) > btcAmountTolerance \<and> amt < expected"
    then have yes: "True = (case expected_btc_amount of None \<Rightarrow> False
          | Some e \<Rightarrow> e \<noteq> 0 \<and> abs (amt - e) > btcAmountTolerance \<and> amt < e)"
      by (cases expected_btc_amount) (simp, simp only: option.case option.inject, blast)
    have C: "?C = (Inl (CheckFailed Underpayment), ?s2)"
      using st[OF yes] by (simp add: Let_def)
    show "fst ?C = Inl (CheckFailed Underpayment)" by (simp add: C)
  }
qed

text \<open>
  The theorem at a row that expects 0.001 BTC and a confirmed transaction of 0.0001 BTC:
  without the expected amount, and with an expected amount of 0, the donation of 10 USD is
  recorded and the row confirmed; with the expected amount the call fails.
\<close>

theorem checkBitcoinPayment_without_expected_amount_witness:
  "expected_amount_btc example_row = 1 / 1000
   \<and> fst (checkBitcoinPayment Mainnet (\<lambda>a. Paid ''abc'' (1 / 10000) 3) (Inr 100000) 0 0
        example_state example_address ''s1'' None None)
      = Inr (PaidInfo ''abc'' (1 / 10000) 3 3)
   \<and> map status (pending_bitcoin_payments
        (snd (checkBitcoinPayment Mainnet (\<lambda>a. Paid ''abc'' (1 / 10000) 3) (Inr 100000) 0 0
          example_state example_address ''s1'' None None))) = [Confirmed]
   \<and> map amount (donations
        (snd (checkBitcoinPayment Mainnet (\<lambda>a. Paid ''abc'' (1 / 10000) 3) (Inr 100000) 0 0
          example_state example_address ''s1'' None None))) = [10]
   \<and> map amount (donations
        (snd (checkBitcoinPayment Mainnet (\<lambda>a. Paid ''abc'' (1 / 10000) 3) (Inr 100000) 0 0
          example_state example_address ''s1'' (Some 0) None))) = [10]
   \<and> fst (checkBitcoinPayment Mainnet (\<lambda>a. Paid ''abc'' (1 / 10000) 3) (Inr 100000) 0 0
        example_state example_address ''s1'' (Some (1 / 1000)) None)
      = Inl (CheckFailed Underpayment)"
proof -
  have cf: "bitcoinConfirmations Mainnet \<le> 3" by simp
  have usd: "validateDonationAmount (1 / 10000 * 100000) = Inr ()"
    by (simp add: validateDonationAmount_def minDonationAmount_def maxDonationAmount_def)
  have none: "find (by_payment_id example_address) (donations example_state) = None"
    by (simp add: example_state_row(4))
  have under: "(1 / 1000 :: real) \<noteq> 0 \<and> abs (1 / 10000 - 1 / 1000) > btcAmountTolerance
      \<and> (1 / 10000 :: real) < 1 / 1000"
    by (simp add: btcAmountTolerance_def)
  note T = checkBitcoinPayment_without_expected_amount[
      where probe = "\<lambda>a. Paid ''abc'' (1 / 10000) 3" and a = example_address
      and s = example_state and net = Mainnet and now = 0 and sid = "''s1''"
      and now_limit = 0 and price = "Inr 100000" and btcPrice = 100000 and md = None,
      OF example_state_row(1,2) refl cf example_address_valid example_state_session]
  have 0: "expected_amount_btc example_row = 1 / 1000" by (simp add: example_row_def)
  have 1: "fst (checkBitcoinPayment Mainnet (\<lambda>a. Paid ''abc'' (1 / 10000) 3) (Inr 100000) 0 0
        example_state example_address ''s1'' None None)
      = Inr (PaidInfo ''abc'' (1 / 10000) 3 3)"
    using T[where expected_btc_amount = None] usd by simp
  have 2: "pending_bitcoin_payments
        (snd (checkBitcoinPayment Mainnet (\<lambda>a. Paid ''abc'' (1 / 10000) 3) (Inr 100000) 0 0
          example_state example_address ''s1'' None None)) = [example_row\<lparr>status := Confirmed\<rparr>]"
    using T[where expected_btc_amount = None] usd example_state_row(5) by simp
  have 3: "donations
        (snd (checkBitcoinPayment Mainnet (\<lambda>a. Paid ''abc'' (1 / 10000) 3) (Inr 100000) 0 0
          example_state example_address ''s1'' None None)) =
        [\<lparr>amount = 10, display_name = ''Anonymous'', payment_id = example_address,
          payment_method = Bitcoin, donation_message = None\<rparr>]"
    using T[where expected_btc_amount = None] usd none example_state_row(4)
    by (simp add: getDisplayName_def createDonationFromPayment_def)
  have 4: "donations
        (snd (checkBitcoinPayment Mainnet (\<lambda>a. Paid ''abc'' (1 / 10000) 3) (Inr 100000) 0 0
          example_state example_address ''s1'' (Some 0) None)) =
        [\<lparr>amount = 10, display_name = ''Anonymous'', payment_id = example_address,
          payment_method = Bitcoin, donation_message = None\<rparr>]"
    using T[where expected_btc_amount = "Some 0"] usd none example_state_row(4)
    by (simp add: getDisplayName_def createDonationFromPayment_def)
  have 5: "fst (checkBitcoinPayment Mainnet (\<lambda>a. Paid ''abc'' (1 / 10000) 3) (Inr 100000) 0 0
        example_state example_address ''s1'' (Some (1 / 1000)) None)
      = Inl (CheckFailed Underpayment)"
    using T[where expected_btc_amount = "Some (1 / 1000)" and expected = "1 / 1000"] under
    by blast
  show ?thesis using 0 1 2 3 4 5 by simp
qed

subsection \<open>Generating an address\<close>


lemma checkExisting_proj:
  "checkExistingPaymentSession s sid amt now =
     (case map_option (\<lambda>e. (expires_at e, address e, derivation_index e))
             (find (by_session_amount sid amt) (pending_bitcoin_payments s)) of
        None \<Rightarrow> None
      | Some (ex, ad, di) \<Rightarrow> if ex > now then Some (ad, di) else None)"
  by (simp add: checkExistingPaymentSession_def split: option.splits)



lemma generate_existing:
  assumes "validateDonationAmount amt = Inr ()" and "metadata_valid md"
    and "fst (limit_generateAddress s sid nl)"
    and "price = Inr btcPrice"
    and "checkExistingPaymentSession s sid amt nq = Some (ea, ei)"
  shows "generateBitcoinAddress derive price nl nq nc s amt sid md =
     (Inr \<lparr>result_address = ea, result_amount_btc = amt / btcPrice, result_amount_usd = amt,
           result_exchange_rate = btcPrice, result_derivation_index = ei\<rparr>,
      snd (limit_generateAddress s sid nl))"
proof -
  obtain s1 where l: "limit_generateAddress s sid nl = (True, s1)"
    using assms(3) by (cases "limit_generateAddress s sid nl") auto
  have "pending_bitcoin_payments s1 = pending_bitcoin_payments s"
    using limit_generateAddress_frame(1)[of s sid nl] l by simp
  then have "checkExistingPaymentSession s1 sid amt nq = Some (ea, ei)"
    using assms(5) checkExisting_cong[of s1 s] by simp
  then show ?thesis using assms(1,2,4) l
    by (auto simp: generateBitcoinAddress_def metadata_valid_def Let_def)
qed



lemma find_update_proj:
  assumes "\<And>x. P (f x) = P x" and "\<And>x. h (f x) = h x"
  shows "map_option h (find P (xs[i := f (xs ! i)])) = map_option h (find P xs)"
  using assms
proof (induction xs arbitrary: i)
  case Nil
  then show ?case by simp
next
  case (Cons x xs)
  then show ?case by (cases i) auto
qed

lemma checkExisting_status_update:
  "checkExistingPaymentSession
     (s\<lparr>pending_bitcoin_payments :=
          (pending_bitcoin_payments s)[i := (pending_bitcoin_payments s ! i)\<lparr>status := st\<rparr>]\<rparr>)
     sid amt now
   = checkExistingPaymentSession s sid amt now"
proof -
  have "map_option (\<lambda>e. (expires_at e, address e, derivation_index e))
          (find (by_session_amount sid amt)
             ((pending_bitcoin_payments s)[i := (\<lambda>p. p\<lparr>status := st\<rparr>) (pending_bitcoin_payments s ! i)]))
      = map_option (\<lambda>e. (expires_at e, address e, derivation_index e))
          (find (by_session_amount sid amt) (pending_bitcoin_payments s))"
    by (rule find_update_proj) (simp_all add: by_session_amount_def)
  then show ?thesis by (simp add: checkExisting_proj)
qed

lemma checkExisting_status_map:
  "checkExistingPaymentSession
     (s\<lparr>pending_bitcoin_payments := map (\<lambda>p. p\<lparr>status := f p\<rparr>) (pending_bitcoin_payments s)\<rparr>)
     sid amt now
   = checkExistingPaymentSession s sid amt now"
proof -
  have "\<And>xs. map_option (\<lambda>e. (expires_at e, address e, derivation_index e))
          (find (by_session_amount sid amt) (map (\<lambda>p. p\<lparr>status := f p\<rparr>) xs))
      = map_option (\<lambda>e. (expires_at e, address e, derivation_index e))
          (find (by_session_amount sid amt) xs)"
  proof -
    fix xs :: "pending_payment list"
    show "map_option (\<lambda>e. (expires_at e, address e, derivation_index e))
          (find (by_session_amount sid amt) (map (\<lambda>p. p\<lparr>status := f p\<rparr>) xs))
      = map_option (\<lambda>e. (expires_at e, address e, derivation_index e))
          (find (by_session_amount sid amt) xs)"
      by (induction xs) (auto simp: by_session_amount_def)
  qed
  then show ?thesis by (simp add: checkExisting_proj)
qed

lemma markPaymentExpired_initialized:
  assumes "first_index (by_address a) (pending_bitcoin_payments s) = Some i"
    and "p = pending_bitcoin_payments s ! i"
    and "session_id p = sid" and "status p = Initialized"
  shows "markPaymentExpired s a sid =
     Inr (Some i, s\<lparr>pending_bitcoin_payments :=
                     (pending_bitcoin_payments s)[i := p\<lparr>status := Expired\<rparr>]\<rparr>)"
  using assms first_index_SomeD[OF assms(1)]
  by (simp add: markPaymentExpired_def patch_first_update)

text \<open>
  C10. \<open>checkExistingPaymentSession\<close> does not read the status: rewriting the status of any
  rows leaves its answer unchanged. So let a row be the first of its session and amount
  and the first of its address, and let it be \<open>initialized\<close>: \<open>markPaymentExpired\<close> by its
  session sets it to \<open>expired\<close>, and a \<open>generateBitcoinAddress\<close> for the same session and
  amount that the rate limiter admits before the row's \<open>expires_at\<close> returns the address
  and the derivation index of that expired row, leaves the derivation counter as it was and
  adds no row.
\<close>

theorem checkExistingPaymentSession_ignores_status:
  assumes "first_index (by_session_amount sid amt) (pending_bitcoin_payments s) = Some i"
    and "p = pending_bitcoin_payments s ! i"
    and "first_index (by_address (address p)) (pending_bitcoin_payments s) = Some i"
    and "status p = Initialized"
    and "validateDonationAmount amt = Inr ()"
    and "metadata_valid md"
    and "fst (limit_generateAddress s sid now_limit)"
    and "price = Inr btcPrice"
    and "now_query < expires_at p"
    and "expired = s\<lparr>pending_bitcoin_payments :=
                      (pending_bitcoin_payments s)[i := p\<lparr>status := Expired\<rparr>]\<rparr>"
  shows "checkExistingPaymentSession
           (s\<lparr>pending_bitcoin_payments :=
                map (\<lambda>q. q\<lparr>status := f q\<rparr>) (pending_bitcoin_payments s)\<rparr>) sid amt now
         = checkExistingPaymentSession s sid amt now
       \<and> markPaymentExpired s (address p) sid = Inr (Some i, expired)
       \<and> status (pending_bitcoin_payments expired ! i) = Expired
       \<and> fst (generateBitcoinAddress derive price now_limit now_query now_create expired
               amt sid md)
          = Inr \<lparr>result_address = address p, result_amount_btc = amt / btcPrice,
                 result_amount_usd = amt, result_exchange_rate = btcPrice,
                 result_derivation_index = derivation_index p\<rparr>
       \<and> bitcoin_config (snd (generateBitcoinAddress derive price now_limit now_query
               now_create expired amt sid md)) = bitcoin_config s
       \<and> pending_bitcoin_payments (snd (generateBitcoinAddress derive price now_limit
               now_query now_create expired amt sid md)) = pending_bitcoin_payments expired"
proof -
  note d = first_index_SomeD[OF assms(1)]
  have sid: "session_id p = sid" using d assms(2) by (simp add: by_session_amount_def)
  have m: "markPaymentExpired s (address p) sid = Inr (Some i, expired)"
    using markPaymentExpired_initialized[OF assms(3,2) sid assms(4)] assms(10) by simp
  have ce: "checkExistingPaymentSession s sid amt now_query = Some (address p, derivation_index p)"
    using d assms(2,9) by (simp add: checkExistingPaymentSession_def)
  have ce': "checkExistingPaymentSession expired sid amt now_query
               = Some (address p, derivation_index p)"
    using ce checkExisting_status_update[where s = s and i = i and st = Expired and sid = sid
        and amt = amt and now = now_query] assms(2,10) by simp
  have lim: "fst (limit_generateAddress expired sid now_limit)"
    using assms(7,10) by (simp add: limit_generateAddress_def Let_def split: if_splits)
  note g = generate_existing[OF assms(5,6) lim assms(8) ce', of derive now_create]
  have st: "status (pending_bitcoin_payments expired ! i) = Expired"
    using d assms(10) by simp
  show ?thesis
    using m st g checkExisting_status_map[where s = s and f = f and sid = sid and amt = amt
        and now = now] assms(10)
    by (simp add: limit_generateAddress_frame)
qed


lemma example_generated_state:
  "pending_bitcoin_payments (snd example_generated) =
     [example_row\<lparr>status := Initialized, txid := None, detected_at := None,
                  scheduled_job_id := Some 0\<rparr>]"
  "bitcoin_config (snd example_generated) = Some 1"
  "generateAddress_limit (snd example_generated) ''s1'' = Some \<lparr>bucket_tokens = 0, bucket_ts = 0\<rparr>"
  by (simp_all add: example_generated_eq example_row_def)

text \<open>
  The theorem at the state after the first address was generated: the client marks the row
  expired, and ten minutes after the first call the same session asks again for the same
  amount.
\<close>

theorem checkExistingPaymentSession_ignores_status_witness:
  "markPaymentExpired (snd example_generated) example_address ''s1'' =
     Inr (Some 0, (snd example_generated)\<lparr>pending_bitcoin_payments :=
        [example_row\<lparr>status := Expired, txid := None, detected_at := None,
                      scheduled_job_id := Some 0\<rparr>]\<rparr>)
   \<and> fst (generateBitcoinAddress (\<lambda>i. Inr ''bc1qnew'') (Inr 100000) 600000 600000 600000
        ((snd example_generated)\<lparr>pending_bitcoin_payments :=
           [example_row\<lparr>status := Expired, txid := None, detected_at := None,
                         scheduled_job_id := Some 0\<rparr>]\<rparr>)
        100 ''s1'' None)
      = Inr \<lparr>result_address = example_address, result_amount_btc = 1 / 1000,
             result_amount_usd = 100, result_exchange_rate = 100000,
             result_derivation_index = 0\<rparr>"
proof -
  let ?s = "snd example_generated"
  let ?p = "example_row\<lparr>status := Initialized, txid := None, detected_at := None,
                  scheduled_job_id := Some 0\<rparr>"
  have i: "first_index (by_session_amount ''s1'' 100) (pending_bitcoin_payments ?s) = Some 0"
    by (simp add: example_generated_state by_session_amount_def example_row_def)
  have p: "?p = pending_bitcoin_payments ?s ! 0" by (simp add: example_generated_state)
  have a: "first_index (by_address (address ?p)) (pending_bitcoin_payments ?s) = Some 0"
    by (simp add: example_generated_state by_address_def)
  have st: "status ?p = Initialized" by simp
  have v: "validateDonationAmount 100 = Inr ()"
    by (simp add: validateDonationAmount_def minDonationAmount_def maxDonationAmount_def)
  have m: "metadata_valid None" by (simp add: metadata_valid_def)
  have l: "fst (limit_generateAddress ?s ''s1'' 600000)"
    by (simp add: limit_generateAddress_def example_generated_state)
  have q: "600000 < expires_at ?p" by (simp add: example_row_def)
  note T = checkExistingPaymentSession_ignores_status[OF i p a st v m l refl q refl,
      where derive = "\<lambda>i. Inr ''bc1qnew''" and now_create = 600000]
  have e: "?s\<lparr>pending_bitcoin_payments := (pending_bitcoin_payments ?s)[0 := ?p\<lparr>status := Expired\<rparr>]\<rparr>
         = ?s\<lparr>pending_bitcoin_payments :=
        [example_row\<lparr>status := Expired, txid := None, detected_at := None,
                      scheduled_job_id := Some 0\<rparr>]\<rparr>"
    by (simp add: example_generated_state)
  show ?thesis using T unfolding e by (simp add: example_row_def)
qed









subsection \<open>Terminal statuses\<close>




















end
